theory Spec2Isabelle
  imports Main
begin

section \<open>Python values shared by the model\<close>

text \<open>
  The importer is Python: a call either returns a value or raises. Every function of the
  model that can raise returns a \<open>py_result\<close>; the exceptions are the ones the source can
  raise on the paths modelled here.
\<close>

datatype exn =
    StopIteration
  | UnboundLocalError
  | TypeError
  | KeyError
  | AttributeError
  | IndexError
  | PyMISPError
  | OtherError

datatype 'a py_result = Returns 'a | Raises exn

datatype level = DEBUG | INFO | WARNING | ERROR

text \<open>
  What a call leaves behind besides its result: the lines it hands to the logger (level and
  message; the decorations of the source's messages are dropped) and the time it sleeps,
  in milliseconds.
\<close>

datatype effect = Log level string | Sleep nat

section \<open>threaded\_misp.py: the retrying transport\<close>

text \<open>
  \<open>MISP._retry(f, *args, **kwargs)\<close> calls \<open>f\<close> up to \<open>MAX_RETRIES\<close> times. What
  the \<open>i\<close>-th call of \<open>f\<close> does is not in the hands of the importer, so the model takes
  it as a function of the attempt number: the call raises (with the text \<open>str(e)\<close>), or it
  returns a response. Of a response the source reads three things: whether it has the key
  \<open>"errors"\<close>, what \<open>response["errors"][0]\<close> is, and what
  \<open>dict(response["errors"])["message"]\<close> is; the last two can raise themselves, which is
  \<open>None\<close> here.
\<close>

record error_payload =
  err_code :: "int option"
  err_message :: "string option"

record 'a response =
  errors :: "error_payload option"
  body :: 'a

datatype 'a attempt = Responds "'a response" | Throws string

definition MAX_RETRIES :: nat where
  "MAX_RETRIES = 3"

text \<open>\<open>timeout = 0.3 * 2 ** i\<close> seconds, in milliseconds.\<close>

definition backoff_ms :: "nat \<Rightarrow> nat" where
  "backoff_ms i = 300 * 2 ^ i"

text \<open>
  The \<open>except Exception as e\<close> clause of \<open>_retry\<close>: before the last attempt it warns
  and sleeps; at the last attempt it logs three errors and does not raise again (the
  source's \<open>raise e\<close> is commented out), so the loop ends.
\<close>

definition except_clause :: "nat \<Rightarrow> string \<Rightarrow> effect list" where
  "except_clause i e =
     (if i + 1 < MAX_RETRIES
      then [Log WARNING e, Log WARNING ''Retrying request in %.2f seconds.'', Sleep (backoff_ms i)]
      else [Log ERROR ''Unresolvable error received from the MISP server.'',
            Log ERROR e,
            Log ERROR ''Exceeded number of retries.''])"

text \<open>
  The body of the \<open>try\<close> of attempt \<open>i\<close>, with its \<open>except\<close>: \<open>Some r\<close> when the
  attempt executes \<open>return response\<close>, \<open>None\<close> when the loop goes on. The
  \<open>raise PyMISPError\<close> of the last attempt stands inside the \<open>try\<close>, so the
  \<open>except\<close> clause of the same attempt catches it.
\<close>

definition try_body :: "(nat \<Rightarrow> 'a attempt) \<Rightarrow> nat \<Rightarrow> effect list \<times> 'a response option" where
  "try_body f i =
     (case f i of
        Throws e \<Rightarrow> (except_clause i e, None)
      | Responds r \<Rightarrow>
          (case errors r of
             None \<Rightarrow> ([], Some r)
           | Some ep \<Rightarrow>
               (case err_code ep of
                  None \<Rightarrow> (except_clause i ''IndexError'', None)
                | Some c \<Rightarrow>
                    if c = 404 then ([], Some r)
                    else if i + 1 < MAX_RETRIES then
                      (case err_message ep of
                         None \<Rightarrow> (except_clause i ''TypeError'', None)
                       | Some m \<Rightarrow>
                           ([Log WARNING m,
                             Log WARNING ''Retrying request in %.2f seconds.'',
                             Sleep (backoff_ms i)], None))
                    else (except_clause i ''MISP Error'', None))))"

text \<open>
  \<open>for i in range(self.MAX_RETRIES)\<close>, from attempt \<open>i\<close> on. Falling off the end of
  the loop is Python's implicit \<open>return None\<close>.
\<close>

function retry_from :: "(nat \<Rightarrow> 'a attempt) \<Rightarrow> nat \<Rightarrow> effect list \<times> 'a response option py_result" where
  "retry_from f i =
     (if i < MAX_RETRIES then
        (case try_body f i of
           (t, Some r) \<Rightarrow> (t, Returns (Some r))
         | (t, None) \<Rightarrow> (case retry_from f (Suc i) of (t', res) \<Rightarrow> (t @ t', res)))
      else ([], Returns None))"
  by pat_completeness auto
termination
  by (relation "measure (\<lambda>(f, i). MAX_RETRIES - i)") auto

declare retry_from.simps [simp del]

definition MISP_retry :: "(nat \<Rightarrow> 'a attempt) \<Rightarrow> effect list \<times> 'a response option py_result" where
  "MISP_retry f = retry_from f 0"

text \<open>
  An attempt that does not end the call: it raised, or its response has an \<open>"errors"\<close>
  entry whose first element is not 404.
\<close>

fun attempt_failed :: "'a attempt \<Rightarrow> bool" where
  "attempt_failed (Throws e) = True"
| "attempt_failed (Responds r) =
     (case errors r of None \<Rightarrow> False | Some ep \<Rightarrow> err_code ep \<noteq> Some 404)"

text \<open>A destination that answers every attempt with the application error 500.\<close>

definition always_500 :: "nat \<Rightarrow> unit attempt" where
  "always_500 i =
     Responds \<lparr>errors = Some \<lparr>err_code = Some 500, err_message = Some ''Internal error''\<rparr>,
               body = ()\<rparr>"

text \<open>A destination that fails twice and then answers 404.\<close>

definition not_found_response :: "unit response" where
  "not_found_response =
     \<lparr>errors = Some \<lparr>err_code = Some 404, err_message = Some ''Not found''\<rparr>, body = ()\<rparr>"

definition third_is_404 :: "nat \<Rightarrow> unit attempt" where
  "third_is_404 i = (if i < 2 then Throws ''connection reset'' else Responds not_found_response)"

section \<open>indicators.py: the data\<close>

text \<open>
  The settings the pipeline reads. A value that is \<open>None\<close> is absent from the
  configuration, and the source's default applies.
\<close>

record misp_settings =
  ind_attribute_batch_size :: "int option"
  event_save_memory_refresh_interval :: "int option"
  log_duplicates_as_sightings :: bool
  indicator_type_title :: "string option"
  force :: bool
  delete_outdated :: bool

text \<open>
  A source indicator is a dictionary; the fields the pipeline reads with \<open>.get\<close> are
  options, \<open>None\<close> for a missing key.
\<close>

record indicator =
  ind_id :: string
  ind_type :: "string option"
  ind_indicator :: "string option"
  ind_published_date :: "int option"
  ind_last_updated :: "int option"
  ind_uuid :: "string option"
  ind_attribute_timestamp :: "int option"
  ind_malware_families :: "string list"
  ind_labels :: "string list"

text \<open>Python's truth value of an optional string and of an optional integer.\<close>

definition truthy_str :: "string option \<Rightarrow> bool" where
  "truthy_str v = (case v of None \<Rightarrow> False | Some s \<Rightarrow> s \<noteq> [])"

definition truthy_int :: "int option \<Rightarrow> bool" where
  "truthy_int v = (case v of None \<Rightarrow> False | Some n \<Rightarrow> n \<noteq> 0)"

record attribute =
  att_type :: string
  att_value :: string
  att_uuid :: nat
  att_first_seen :: "int option"
  att_last_seen :: "int option"
  att_tags :: "string list"

datatype misp_object = MISPObject string

record event =
  info :: string
  evt_uuid :: nat
  attributes :: "attribute list"
  objects :: "misp_object list"
  threat_level :: nat

record dedup_entry =
  de_uuid :: nat
  de_event_uuid :: "nat option"
  de_timestamp :: "int option"

record sighting =
  sg_value :: string
  sg_timestamp :: "int option"

text \<open>
  The fields of \<open>self\<close> (and of the client \<open>self.misp\<close>) that the pipeline changes.
  \<open>feeds\<close> is the registry of container events; a worker holds a container by its
  position in the list. \<open>trace\<close> is what was logged and slept so far; \<open>next_uuid\<close>
  numbers the attributes and events created; \<open>net_calls\<close> counts the calls made to the
  destination, so that the destination's answers may differ from call to call.
\<close>

record importer =
  feeds :: "event list"
  dirty_feeds :: "string \<rightharpoonup> nat"
  existing_indicators :: "string \<rightharpoonup> dedup_entry"
  skipped :: nat
  batch_update :: nat
  MISSING_GALAXIES :: "string list option"
  trace :: "effect list"
  added_sighting_count :: nat
  added_sightings_count :: nat
  sightings :: "sighting list"
  next_uuid :: nat
  net_calls :: nat

text \<open>The two files the checkpoint writer overwrites; \<open>None\<close> is a file that does not exist.\<close>

record files =
  ts_file :: "int option"
  miss_file :: "string list option"

text \<open>What \<open>gen_indicator\<close> (helper.py) hands back, as far as the worker inspects it.\<close>

datatype gen_result = GenFalsy | GenObject misp_object | GenAttribute string string | GenOther

text \<open>
  The answers of the destination. A save (\<open>update_event\<close>) succeeds after some
  milliseconds, fails with one of the exceptions \<open>event_thread\<close> catches (SSLError,
  ConnectionError, MISPServerError), or raises something else. The search of the refresh
  is for one uuid, and yields no event or one (the source: "Should only ever return one").
\<close>

datatype save_outcome = Saved nat | ConnFailure | OtherFailure

datatype refresh_outcome = RefreshRaised | RefreshNone | RefreshOne event

record attr_row =
  row_value :: string
  row_uuid :: nat
  row_event_uuid :: "nat option"
  row_timestamp :: "int option"

datatype search_outcome = Found "attr_row list" | ConnectionFailed | SearchRaised

text \<open>
  Everything the pipeline is handed from outside: the settings, the tables and helpers of
  the modules that are not among the sources (helper.py, indicator\_type.py,
  indicator\_tags.py, indicator\_family.py, indicator\_feeds.py), the source feed, the clock
  and the destination. The destination's functions take the number of the call first.
  \<open>add_attribute_raises\<close> says for which type and value PyMISP's
  \<open>MISPEvent.add_attribute\<close> refuses to build the attribute and raises.
\<close>

record env =
  cfg :: misp_settings
  IndicatorType :: "string \<Rightarrow> string option"
  INDICATOR_TYPES :: "(string \<times> string) list"
  gen_indicator :: "indicator \<Rightarrow> gen_result"
  family_title :: "indicator \<Rightarrow> string option"
  indicator_threat :: "indicator \<Rightarrow> nat"
  derive_tags :: "indicator \<Rightarrow> string list option \<Rightarrow> (string list \<times> string list option) option"
  retrieve_or_create_feed_events :: "event list \<Rightarrow> event list"
  retrieve_family_events :: "event list \<Rightarrow> event list"
  get_indicators :: "int \<Rightarrow> bool \<Rightarrow> indicator list list"
  today :: int
  time_send_request :: int
  misp_update_event :: "nat \<Rightarrow> event \<Rightarrow> save_outcome"
  misp_search_event :: "nat \<Rightarrow> nat \<Rightarrow> refresh_outcome"
  misp_get_attribute :: "nat \<Rightarrow> nat \<Rightarrow> int option"
  super_add_sighting :: "nat \<Rightarrow> nat \<Rightarrow> unit attempt"
  misp_search_attributes :: "string \<Rightarrow> search_outcome"
  add_attribute_raises :: "string \<Rightarrow> string \<Rightarrow> bool"

definition logs :: "effect list \<Rightarrow> importer \<Rightarrow> importer" where
  "logs es s = s\<lparr>trace := trace s @ es\<rparr>"

text \<open>The position of the first element that satisfies \<open>P\<close>.\<close>

fun first_index :: "('a \<Rightarrow> bool) \<Rightarrow> 'a list \<Rightarrow> nat option" where
  "first_index P [] = None"
| "first_index P (x # xs) = (if P x then Some 0 else map_option Suc (first_index P xs))"

text \<open>\<open>str.upper\<close> on ASCII letters.\<close>

definition upper_char :: "char \<Rightarrow> char" where
  "upper_char c =
     (if 97 \<le> (of_char c :: nat) \<and> (of_char c :: nat) \<le> 122
      then char_of ((of_char c :: nat) - 32) else c)"

definition upper :: "string \<Rightarrow> string" where
  "upper s = map upper_char s"

section \<open>The batch size and the batches of a page\<close>

text \<open>
  \<open>max(50, min(5000, int(self.settings["MISP"].get("ind_attribute_batch_size", 500))))\<close>
\<close>

definition IND_BATCH_SIZE :: "misp_settings \<Rightarrow> int" where
  "IND_BATCH_SIZE c =
     max 50 (min 5000 (case ind_attribute_batch_size c of None \<Rightarrow> 500 | Some v \<Rightarrow> v))"

text \<open>\<open>xs[i:j]\<close> for \<open>0 \<le> i \<le> j\<close>, and \<open>range(0, n, step)\<close> for a positive step.\<close>

definition py_slice :: "'a list \<Rightarrow> nat \<Rightarrow> nat \<Rightarrow> 'a list" where
  "py_slice xs i j = take (j - i) (drop i xs)"

definition range_step :: "nat \<Rightarrow> nat \<Rightarrow> nat list" where
  "range_step n step = map (\<lambda>k. k * step) [0 ..< (n + step - 1) div step]"

text \<open>\<open>[indicators[i:i+IND_BATCH_SIZE] for i in range(0, len(indicators), IND_BATCH_SIZE)]\<close>\<close>

definition ind_batches :: "nat \<Rightarrow> 'a list \<Rightarrow> 'a list list" where
  "ind_batches size_b indicators =
     map (\<lambda>i. py_slice indicators i (i + size_b)) (range_step (length indicators) size_b)"

section \<open>The deduplication index\<close>

text \<open>
  \<open>attribute_search\<close>: the dictionary comprehension keeps, for a value that occurs
  twice, the later row. On SSLError or ConnectionError the method logs a warning and
  returns its initial \<open>clean_result = None\<close>.
\<close>

definition clean_rows :: "attr_row list \<Rightarrow> (string \<rightharpoonup> dedup_entry)" where
  "clean_rows rows =
     map_of (rev (map (\<lambda>res. (row_value res,
        \<lparr>de_uuid = row_uuid res, de_event_uuid = row_event_uuid res,
         de_timestamp = row_timestamp res\<rparr>)) rows))"

definition attribute_search ::
  "env \<Rightarrow> importer \<Rightarrow> string \<Rightarrow> string \<Rightarrow> (string \<rightharpoonup> dedup_entry) option py_result \<times> importer" where
  "attribute_search e s att_name att_ty =
     (case misp_search_attributes e att_ty of
        Found rows \<Rightarrow>
          (Returns (Some (clean_rows rows)), logs [Log INFO ''Retrieved %s %s indicators from MISP.''] s)
      | ConnectionFailed \<Rightarrow>
          (Returns None,
           logs [Log WARNING ''Unable to retrieve %s attributes for duplicate checking.''] s)
      | SearchRaised \<Rightarrow> (Raises OtherError, s))"

text \<open>
  The searches of \<open>find_report_indicators\<close> are submitted to a pool, one for each entry
  of \<open>INDICATOR_TYPES\<close> with a truthy attribute type; the pool runs every one of them
  before the \<open>with\<close> block is left. The model runs them in the order of the table.
\<close>

fun run_searches ::
  "env \<Rightarrow> importer \<Rightarrow> (string \<times> string) list \<Rightarrow>
   (string \<rightharpoonup> dedup_entry) option py_result list \<times> importer" where
  "run_searches e s [] = ([], s)"
| "run_searches e s ((att, atn) # rest) =
     (case attribute_search e s att atn of
        (r, s1) \<Rightarrow> (case run_searches e s1 rest of (rs, s2) \<Rightarrow> (r # rs, s2)))"

text \<open>
  \<open>for fut in futures: retrieved_indicators.update(fut.result())\<close>. \<open>fut.result()\<close>
  raises what the search raised, and \<open>dict.update(None)\<close> raises TypeError.
\<close>

fun merge_results ::
  "(string \<rightharpoonup> dedup_entry) option py_result list \<Rightarrow> (string \<rightharpoonup> dedup_entry) \<Rightarrow>
   (string \<rightharpoonup> dedup_entry) py_result" where
  "merge_results [] acc = Returns acc"
| "merge_results (Raises x # rs) acc = Raises x"
| "merge_results (Returns None # rs) acc = Raises TypeError"
| "merge_results (Returns (Some d) # rs) acc = merge_results rs (acc ++ d)"

text \<open>The entries whose event is not one of the containers in \<open>self.feeds\<close>.\<close>

definition report_entries :: "nat list \<Rightarrow> (string \<rightharpoonup> dedup_entry) \<Rightarrow> (string \<rightharpoonup> dedup_entry)" where
  "report_entries non_report_ids retrieved =
     (\<lambda>k. case retrieved k of
             None \<Rightarrow> None
           | Some d \<Rightarrow>
               (case de_event_uuid d of
                  None \<Rightarrow> Some d
                | Some u \<Rightarrow> if u \<in> set non_report_ids then None else Some d))"

definition find_report_indicators :: "env \<Rightarrow> importer \<Rightarrow> unit py_result \<times> importer" where
  "find_report_indicators e s =
     (case run_searches e s (filter (\<lambda>(att, atn). atn \<noteq> []) (INDICATOR_TYPES e)) of
        (rs, s1) \<Rightarrow>
          (case merge_results rs Map.empty of
             Raises x \<Rightarrow> (Raises x, s1)
           | Returns retrieved \<Rightarrow>
               (Returns (),
                logs [Log INFO ''Found %s pre-existing indicators within CrowdStrike reports.'']
                  (s1\<lparr>existing_indicators :=
                        existing_indicators s1 ++
                        report_entries (map evt_uuid (feeds s1)) retrieved\<rparr>))))"

section \<open>Sightings\<close>

record seen =
  seen_first :: "int option"
  seen_last :: "int option"

definition calculate_seen :: "indicator \<Rightarrow> seen" where
  "calculate_seen ind =
     \<lparr>seen_first = (if truthy_int (ind_published_date ind) then ind_published_date ind else None),
      seen_last = (if truthy_int (ind_last_updated ind) then ind_last_updated ind else None)\<rparr>"

text \<open>\<open>int(seen_dict.get("last_seen", 0))\<close>\<close>

definition last_seen_or_0 :: "seen \<Rightarrow> int" where
  "last_seen_or_0 sd = (case seen_last sd of None \<Rightarrow> 0 | Some t \<Rightarrow> t)"

text \<open>
  \<open>MISP.add_sighting\<close> (threaded\_misp.py): the call goes through \<open>_retry\<close>, and the
  result is tested with \<open>"errors" not in result\<close>, which raises TypeError when
  \<open>_retry\<close> returned \<open>None\<close>.
\<close>

definition MISP_add_sighting :: "env \<Rightarrow> importer \<Rightarrow> sighting \<Rightarrow> unit py_result \<times> importer" where
  "MISP_add_sighting e s sg =
     (case MISP_retry (super_add_sighting e (net_calls s)) of
        (t, res) \<Rightarrow>
          (let s1 = s\<lparr>trace := trace s @ t, net_calls := Suc (net_calls s)\<rparr> in
           case res of
             Raises x \<Rightarrow> (Raises x, s1)
           | Returns None \<Rightarrow> (Raises TypeError, s1)
           | Returns (Some r) \<Rightarrow>
               (case errors r of
                  Some ep \<Rightarrow> (Returns (), s1)
                | None \<Rightarrow>
                    (Returns (),
                     (logs (if added_sighting_count s1 mod 50 = 0 \<and> added_sighting_count s1 \<noteq> 0
                            then [Log INFO ''%i sightings added''] else []) s1)
                       \<lparr>added_sighting_count := Suc (added_sighting_count s1),
                        sightings := sightings s1 @ [sg]\<rparr>))))"

definition add_report_sighting ::
  "env \<Rightarrow> importer \<Rightarrow> seen \<Rightarrow> string \<Rightarrow> int \<Rightarrow> unit py_result \<times> importer" where
  "add_report_sighting e s seen_dict ind_value ind_timestamp =
     (let last = last_seen_or_0 seen_dict in
      if last \<noteq> 0 \<and> last \<noteq> ind_timestamp then
        (case MISP_add_sighting e s \<lparr>sg_value = ind_value, sg_timestamp = seen_last seen_dict\<rparr> of
           (Raises x, s1) \<Rightarrow> (Raises x, s1)
         | (Returns u, s1) \<Rightarrow> (Returns (), logs [Log DEBUG ''Adding sighting for %s (report).''] s1))
      else (Returns (), s))"

text \<open>
  The three lines the \<open>except Exception\<close> clauses of indicators.py log, the last one
  naming what could not be done.
\<close>

definition oops_lines :: "string \<Rightarrow> effect list" where
  "oops_lines what = [Log ERROR ''str(oops)'', Log ERROR ''%s (#%i) %s'', Log ERROR what]"

text \<open>
  \<open>add_sighting_to_attribute\<close>: everything happens inside a \<open>try\<close> whose
  \<open>except Exception\<close> logs and goes on. \<open>att_list[att]\<close> raises KeyError for a value
  that is not a key, \<open>get_attribute\<close> may raise (\<open>None\<close>), and so may
  \<open>add_sighting\<close>.
\<close>

definition add_sighting_to_attribute ::
  "env \<Rightarrow> importer \<Rightarrow> string \<Rightarrow> (string \<rightharpoonup> nat) \<Rightarrow> seen \<Rightarrow> importer" where
  "add_sighting_to_attribute e s att att_list seen_dict =
     (case att_list att of
        None \<Rightarrow> logs (oops_lines ''Could not add sighting for: %s'') s
      | Some u \<Rightarrow>
          (let s1 = s\<lparr>net_calls := Suc (net_calls s)\<rparr> in
           case misp_get_attribute e (net_calls s) u of
             None \<Rightarrow> logs (oops_lines ''Could not add sighting for: %s'') s1
           | Some ts \<Rightarrow>
               if last_seen_or_0 seen_dict > ts then
                 (case MISP_add_sighting e s1 \<lparr>sg_value = att, sg_timestamp = seen_last seen_dict\<rparr> of
                    (Raises x, s2) \<Rightarrow> logs (oops_lines ''Could not add sighting for: %s'') s2
                  | (Returns u, s2) \<Rightarrow> logs [Log DEBUG ''Adding sighting for %s.''] s2)
               else
                 (logs [Log DEBUG ''Skipping addition of %s to %s as already present''] s1)
                   \<lparr>skipped := Suc (skipped s1)\<rparr>))"

section \<open>Attaching an attribute to a container\<close>

text \<open>
  \<open>process_attribute_tags\<close>: the tag list comes from the tag collaborators
  (\<open>derive_tags\<close>, \<open>None\<close> when one of them raises), each tag is added to the attribute
  with the given uuid, and the container's title is counted in \<open>dirty_feeds\<close>. An
  exception is logged and swallowed; the container is then not marked dirty.
\<close>

definition add_attribute_tags :: "string list \<Rightarrow> nat \<Rightarrow> event \<Rightarrow> event" where
  "add_attribute_tags tags u ev =
     ev\<lparr>attributes :=
          map (\<lambda>a. if att_uuid a = u then a\<lparr>att_tags := att_tags a @ tags\<rparr> else a) (attributes ev)\<rparr>"

definition mark_dirty :: "string \<Rightarrow> (string \<rightharpoonup> nat) \<Rightarrow> (string \<rightharpoonup> nat)" where
  "mark_dirty title d = (case d title of None \<Rightarrow> d(title \<mapsto> 1) | Some c \<Rightarrow> d(title \<mapsto> c + 1))"

definition process_attribute_tags :: "env \<Rightarrow> importer \<Rightarrow> indicator \<Rightarrow> nat \<Rightarrow> nat \<Rightarrow> importer" where
  "process_attribute_tags e s ind u evt =
     (case derive_tags e ind (MISSING_GALAXIES s) of
        None \<Rightarrow> logs [Log ERROR ''str(errored)'', Log ERROR ''%s (#%i) %s''] s
      | Some (tagging_list, missing) \<Rightarrow>
          s\<lparr>MISSING_GALAXIES := missing,
            feeds := (feeds s)[evt := add_attribute_tags tagging_list u (feeds s ! evt)],
            dirty_feeds := mark_dirty (info (feeds s ! evt)) (dirty_feeds s)\<rparr>)"

text \<open>
  \<open>add_and_tag_attribute\<close>: \<open>evt.add_attribute(ind_obj.type, ind_obj.value, **when)\<close>
  appends a new attribute to the container, which is then tagged. The container is the one
  at position \<open>evt\<close> of the registry; the callers pass a position inside it. When
  \<open>add_attribute\<close> raises, nothing is attached, the \<open>except Exception\<close> of the
  method logs its three lines and the method returns 0. What the tagging raises is caught
  inside \<open>process_attribute_tags\<close>.
\<close>

definition add_attribute :: "string \<Rightarrow> string \<Rightarrow> seen \<Rightarrow> nat \<Rightarrow> event \<Rightarrow> event" where
  "add_attribute ty v wh u ev =
     ev\<lparr>attributes := attributes ev @
          [\<lparr>att_type = ty, att_value = v, att_uuid = u, att_first_seen = seen_first wh,
            att_last_seen = seen_last wh, att_tags = []\<rparr>]\<rparr>"

definition add_and_tag_attribute ::
  "env \<Rightarrow> importer \<Rightarrow> indicator \<Rightarrow> string \<Rightarrow> string \<Rightarrow> nat \<Rightarrow> seen \<Rightarrow> nat \<times> importer" where
  "add_and_tag_attribute e s ind ty v evt wh =
     (if add_attribute_raises e ty v then
        (0, logs (oops_lines ''Could not refresh event in memory: %s'') s)
      else
        (let u = next_uuid s;
             s1 = s\<lparr>feeds := (feeds s)[evt := add_attribute ty v wh u (feeds s ! evt)],
                    next_uuid := Suc u\<rparr>;
             s2 = process_attribute_tags e s1 ind u evt
         in (1, logs [Log DEBUG ''Added %s indicators to event %s''] s2)))"

definition add_indicator_obj :: "misp_object \<Rightarrow> nat option \<Rightarrow> nat option \<Rightarrow> importer \<Rightarrow> importer" where
  "add_indicator_obj obj evt mal s =
     (let add = (\<lambda>p fs. case p of
                    None \<Rightarrow> fs
                  | Some i \<Rightarrow> fs[i := (fs ! i)\<lparr>objects := objects (fs ! i) @ [obj]\<rparr>])
      in s\<lparr>feeds := add mal (add evt (feeds s))\<rparr>)"

section \<open>The indicator worker\<close>

text \<open>
  Modelled from the spec: \<open>find_or_create_family_event\<close> and
  \<open>check_and_set_threat_level\<close> are in indicator\_family.py, which is not among the
  sources. The spec (4.3) has the registry keyed by title, with lookup-or-create under the
  lock and a threat level that is only ever raised. \<open>family_title\<close> is the title of the
  family container an indicator belongs to, \<open>None\<close> when it carries no family metadata.
\<close>

definition find_or_create_family_event :: "env \<Rightarrow> importer \<Rightarrow> indicator \<Rightarrow> nat option \<times> importer" where
  "find_or_create_family_event e s ind =
     (case family_title e ind of
        None \<Rightarrow> (None, s)
      | Some title \<Rightarrow>
          (case first_index (\<lambda>fe. info fe = title) (feeds s) of
             Some j \<Rightarrow> (Some j, s)
           | None \<Rightarrow>
               (Some (length (feeds s)),
                s\<lparr>feeds := feeds s @
                      [\<lparr>info = title, evt_uuid = next_uuid s, attributes = [], objects = [],
                        threat_level = indicator_threat e ind\<rparr>],
                  next_uuid := Suc (next_uuid s)\<rparr>)))"

definition check_and_set_threat_level :: "env \<Rightarrow> indicator \<Rightarrow> nat \<Rightarrow> importer \<Rightarrow> importer" where
  "check_and_set_threat_level e ind mal s =
     s\<lparr>feeds := (feeds s)[mal := (feeds s ! mal)
           \<lparr>threat_level := max (threat_level (feeds s ! mal)) (indicator_threat e ind)\<rparr>]\<rparr>"

text \<open>\<open>{iv.value: iv.uuid for iv in event.attributes}\<close> and \<open>indicator_value in ...\<close>\<close>

definition value_uuids :: "attribute list \<Rightarrow> (string \<rightharpoonup> nat)" where
  "value_uuids atts = map_of (rev (map (\<lambda>iv. (att_value iv, att_uuid iv)) atts))"

definition in_dict :: "string option \<Rightarrow> (string \<rightharpoonup> 'v) \<Rightarrow> bool" where
  "in_dict k d = (case k of None \<Rightarrow> False | Some v \<Rightarrow> d v \<noteq> None)"

text \<open>
  \<open>add_indicator_event\<close> has two parts. The first (up to the line that reads
  \<open>log_duplicates_as_sightings\<close>) resolves the two containers and computes, from their
  attribute lists as they are at that moment, the local variables the second part works
  with. The worker keeps them in its frame; the model keeps them in a record.
\<close>

record frame =
  fr_event :: "nat option"
  fr_mal_event :: "nat option"
  fr_indicator_value :: "string option"
  fr_attribute_list :: "string \<rightharpoonup> nat"
  fr_evt_dupe :: bool
  fr_mal_attribute_list :: "string \<rightharpoonup> nat"
  fr_mal_dupe :: bool

definition cs_search :: "env \<Rightarrow> string \<Rightarrow> string" where
  "cs_search e itype =
     (case indicator_type_title (cfg e) of None \<Rightarrow> ''Indicator Type:'' | Some t \<Rightarrow> t) @ '' '' @ itype"

text \<open>
  \<open>indicator.get('type', None).upper()\<close> raises AttributeError on \<open>None\<close>, and
  \<open>IndicatorType[...]\<close> raises KeyError on a name the enumeration does not have.
\<close>

definition resolve_containers :: "env \<Rightarrow> importer \<Rightarrow> indicator \<Rightarrow> frame py_result \<times> importer" where
  "resolve_containers e s ind =
     (case ind_type ind of
        None \<Rightarrow> (Raises AttributeError, s)
      | Some ty \<Rightarrow>
          (case IndicatorType e (upper ty) of
             None \<Rightarrow> (Raises KeyError, s)
           | Some itype \<Rightarrow>
               (let event = first_index (\<lambda>fe. info fe = cs_search e itype) (feeds s) in
                case find_or_create_family_event e s ind of
                  (mal_event, s1) \<Rightarrow>
                    (let indicator_value = ind_indicator ind;
                         attribute_list =
                           (case event of None \<Rightarrow> Map.empty
                            | Some i \<Rightarrow> value_uuids (attributes (feeds s1 ! i)));
                         mal_attribute_list =
                           (case mal_event of None \<Rightarrow> Map.empty
                            | Some j \<Rightarrow> value_uuids (attributes (feeds s1 ! j)))
                     in (Returns
                           \<lparr>fr_event = event, fr_mal_event = mal_event,
                            fr_indicator_value = indicator_value,
                            fr_attribute_list = attribute_list,
                            fr_evt_dupe = in_dict indicator_value attribute_list,
                            fr_mal_attribute_list = mal_attribute_list,
                            fr_mal_dupe = in_dict indicator_value mal_attribute_list\<rparr>, s1)))))"

text \<open>
  The second part, for an indicator that \<open>gen_indicator\<close> turned into an attribute of
  type \<open>ty\<close> and value \<open>v\<close>: first the indicator type container, then the family
  container, then the report sighting. Each step hands on \<open>SIGHTED\<close>.
\<close>

definition attach_event ::
  "env \<Rightarrow> importer \<Rightarrow> indicator \<Rightarrow> frame \<Rightarrow> string \<Rightarrow> string \<Rightarrow> string \<Rightarrow> (nat \<times> bool) \<times> importer" where
  "attach_event e s ind fr indicator_value ty v =
     (case fr_event fr of
        None \<Rightarrow> ((0, False), s)
      | Some i \<Rightarrow>
          if \<not> fr_evt_dupe fr then
            (case add_and_tag_attribute e s ind ty v i (calculate_seen ind) of
               (feed_result, s1) \<Rightarrow> ((feed_result, False), s1))
          else if log_duplicates_as_sightings (cfg e) then
            ((0, True),
             add_sighting_to_attribute e s indicator_value (fr_attribute_list fr) (calculate_seen ind))
          else ((0, False), s))"

definition attach_mal_event ::
  "env \<Rightarrow> importer \<Rightarrow> indicator \<Rightarrow> frame \<Rightarrow> string \<Rightarrow> string \<Rightarrow> string \<Rightarrow> bool \<Rightarrow>
   (nat \<times> bool) \<times> importer" where
  "attach_mal_event e s ind fr indicator_value ty v sighted =
     (case fr_mal_event fr of
        None \<Rightarrow> ((0, sighted), s)
      | Some j \<Rightarrow>
          (let s0 = check_and_set_threat_level e ind j s in
           if \<not> fr_mal_dupe fr then
             (case add_and_tag_attribute e s0 ind ty v j (calculate_seen ind) of
                (fam_result, s1) \<Rightarrow> ((fam_result, sighted), s1))
           else if fr_attribute_list fr indicator_value = None \<and> log_duplicates_as_sightings (cfg e) then
             ((0, True),
              add_sighting_to_attribute e s0 indicator_value (fr_mal_attribute_list fr)
                (calculate_seen ind))
           else ((0, sighted), s0)))"

definition report_sighting ::
  "env \<Rightarrow> importer \<Rightarrow> indicator \<Rightarrow> string \<Rightarrow> bool \<Rightarrow> unit py_result \<times> importer" where
  "report_sighting e s ind indicator_value sighted =
     (if \<not> sighted \<and> existing_indicators s indicator_value \<noteq> None \<and>
         log_duplicates_as_sightings (cfg e)
      then add_report_sighting e s (calculate_seen ind) indicator_value
             (case ind_attribute_timestamp ind of None \<Rightarrow> 0 | Some t \<Rightarrow> t)
      else (Returns (), s))"

definition attach_attribute ::
  "env \<Rightarrow> importer \<Rightarrow> indicator \<Rightarrow> frame \<Rightarrow> string \<Rightarrow> string \<Rightarrow> string \<Rightarrow>
   (nat \<times> nat) py_result \<times> importer" where
  "attach_attribute e s ind fr indicator_value ty v =
     (case attach_event e s ind fr indicator_value ty v of
        ((feed_result, sighted1), s1) \<Rightarrow>
          (case attach_mal_event e s1 ind fr indicator_value ty v sighted1 of
             ((fam_result, sighted2), s2) \<Rightarrow>
               (case report_sighting e s2 ind indicator_value sighted2 of
                  (Raises x, s3) \<Rightarrow> (Raises x, s3)
                | (Returns u, s3) \<Rightarrow>
                    (Returns (feed_result, fam_result),
                     if 0 < feed_result \<or> 0 < fam_result
                     then logs [Log DEBUG ''Creating attribute for indicator %s''] s3 else s3))))"

text \<open>The second part of \<open>add_indicator_event\<close>, from \<open>feed_result = 0\<close> to the return.\<close>

definition attach :: "env \<Rightarrow> importer \<Rightarrow> indicator \<Rightarrow> frame \<Rightarrow> (nat \<times> nat) py_result \<times> importer" where
  "attach e s ind fr =
     (if \<not> log_duplicates_as_sightings (cfg e) \<and> (fr_mal_dupe fr \<and> fr_evt_dupe fr) then
        (Returns (0, 0), s\<lparr>skipped := Suc (skipped s)\<rparr>)
      else if truthy_str (fr_indicator_value fr) then
        (case gen_indicator e ind of
           GenFalsy \<Rightarrow> (Returns (0, 0), s)
         | GenObject obj \<Rightarrow> (Returns (0, 0), add_indicator_obj obj (fr_event fr) (fr_mal_event fr) s)
         | GenAttribute ty v \<Rightarrow>
             attach_attribute e s ind fr (case fr_indicator_value fr of None \<Rightarrow> [] | Some iv \<Rightarrow> iv) ty v
         | GenOther \<Rightarrow>
             (Returns (0, 0),
              logs [Log WARNING ''Could not generate indicator object %s to attach to event, skipping.''] s))
      else (Returns (0, 0), logs [Log WARNING ''Indicator %s missing indicator field.''] s))"

definition add_indicator_event :: "env \<Rightarrow> importer \<Rightarrow> indicator \<Rightarrow> (nat \<times> nat) py_result \<times> importer" where
  "add_indicator_event e s ind =
     (case resolve_containers e s ind of
        (Raises x, s1) \<Rightarrow> (Raises x, s1)
      | (Returns fr, s1) \<Rightarrow> attach e s1 ind fr)"

text \<open>
  \<open>indicator_thread\<close>: \<open>feed_return\<close> and \<open>fam_return\<close> are assigned only inside
  \<open>if iname:\<close>, and the \<open>return\<close> reads them in any case. The \<open>try\<close> around the
  body is commented out in the source, so what \<open>add_indicator_event\<close> raises leaves the
  worker.
\<close>

definition indicator_thread :: "env \<Rightarrow> importer \<Rightarrow> indicator \<Rightarrow> (nat \<times> nat) py_result \<times> importer" where
  "indicator_thread e s ind =
     (if truthy_str (ind_indicator ind) then
        (case add_indicator_event e s ind of
           (Raises x, s1) \<Rightarrow> (Raises x, s1)
         | (Returns (feed_return, fam_return), s1) \<Rightarrow>
             (let s2 = s1\<lparr>batch_update := Suc (batch_update s1)\<rparr>
              in (Returns (feed_return, fam_return),
                  if batch_update s2 mod 100 = 0 then logs [Log INFO ''%s indicators processed''] s2
                  else s2)))
      else (Raises UnboundLocalError, s))"

text \<open>
  \<open>process_indicator_batch\<close> submits one \<open>indicator_thread\<close> for each indicator of the
  batch; leaving the \<open>with\<close> block waits for all of them, so every worker runs, also
  after one has raised. \<open>run_workers\<close> is one schedule of that pool: the workers
  one after the other in the order of the batch, none starting before the one before it
  has finished (the pool does this when it has one thread). Other schedules let workers
  overlap; \<open>both_check_then_both_attach\<close> below is one of them. The loop over the
  futures then counts the results, and \<open>fut.result()\<close> raises what a worker raised;
  the futures are kept in a set, so which exception comes first when several workers
  raised is not fixed by the source, and \<open>count_results\<close> takes the first in the order
  of the batch.
\<close>

fun run_workers ::
  "env \<Rightarrow> importer \<Rightarrow> indicator list \<Rightarrow> (nat \<times> nat) py_result list \<times> importer" where
  "run_workers e s [] = ([], s)"
| "run_workers e s (cur_ind # rest) =
     (case indicator_thread e s cur_ind of
        (r, s1) \<Rightarrow> (case run_workers e s1 rest of (rs, s2) \<Rightarrow> (r # rs, s2)))"

record tally =
  total_this_round :: nat
  feed_success :: nat
  feed_failed :: nat
  fam_success :: nat
  fam_failed :: nat

fun count_results :: "(nat \<times> nat) py_result list \<Rightarrow> tally \<Rightarrow> tally py_result" where
  "count_results [] t = Returns t"
| "count_results (Raises x # rs) t = Raises x"
| "count_results (Returns (feed, fam) # rs) t =
     count_results rs
       \<lparr>total_this_round = total_this_round t + 1,
        feed_success = (if feed \<noteq> 0 then feed_success t + 1 else feed_success t),
        feed_failed = (if feed \<noteq> 0 then feed_failed t else feed_failed t + 1),
        fam_success = (if fam \<noteq> 0 then fam_success t + 1 else fam_success t),
        fam_failed = (if fam \<noteq> 0 then fam_failed t else fam_failed t + 1)\<rparr>"

definition process_indicator_batch :: "env \<Rightarrow> importer \<Rightarrow> indicator list \<Rightarrow> tally py_result \<times> importer" where
  "process_indicator_batch e s batch_to_process =
     (case run_workers e (s\<lparr>batch_update := 0\<rparr>) batch_to_process of
        (rs, s1) \<Rightarrow>
          (count_results rs
             \<lparr>total_this_round = 0, feed_success = 0, feed_failed = 0, fam_success = 0,
              fam_failed = 0\<rparr>, s1))"

section \<open>Saving the dirty containers\<close>

definition refresh_tolerance :: "misp_settings \<Rightarrow> int" where
  "refresh_tolerance c =
     max 30 (min 300 (case event_save_memory_refresh_interval c of None \<Rightarrow> 60 | Some v \<Rightarrow> v))"

text \<open>
  The refresh of \<open>event_thread\<close> after a save that took longer than the tolerance
  (\<open>duration\<close> is in milliseconds): the container is looked up by title, the destination
  is searched for the event's uuid, and the answer replaces the container
  (\<open>self.feeds.pop(pos)\<close>, \<open>self.feeds.append(refreshed)\<close>). \<open>pop\<close> raises
  IndexError when no container has the title; every exception of the block is logged and
  swallowed.
\<close>

definition refresh_memory :: "env \<Rightarrow> importer \<Rightarrow> event \<Rightarrow> nat \<Rightarrow> importer" where
  "refresh_memory e s evt duration =
     (if int duration > 1000 * refresh_tolerance (cfg e) then
        (let pos = (case first_index (\<lambda>fe. info fe = info evt) (feeds s) of
                      None \<Rightarrow> length (feeds s) | Some i \<Rightarrow> i);
             s1 = (logs [Log DEBUG ''Refreshing memory logged event: %s''] s)
                    \<lparr>net_calls := Suc (net_calls s)\<rparr>
         in case misp_search_event e (net_calls s) (evt_uuid evt) of
              RefreshRaised \<Rightarrow> logs (oops_lines ''Could not refresh event in memory: %s'') s1
            | RefreshNone \<Rightarrow> s1
            | RefreshOne newer \<Rightarrow>
                if pos < length (feeds s1) then
                  (logs [Log INFO ''%s refreshed in memory.''] s1)
                    \<lparr>feeds := take pos (feeds s1) @ drop (Suc pos) (feeds s1) @ [newer]\<rparr>
                else logs (oops_lines ''Could not refresh event in memory: %s'') s1)
      else s)"

text \<open>
  \<open>while tries < 4 and not successful\<close>, from the given value of \<open>tries\<close> on, with
  \<open>successful\<close> false; the result is the final value of \<open>successful\<close>. An exception
  of \<open>update_event\<close> other than the three caught ones leaves the worker.
\<close>

function save_tries :: "env \<Rightarrow> importer \<Rightarrow> event \<Rightarrow> nat \<Rightarrow> bool py_result \<times> importer" where
  "save_tries e s evt tries =
     (if tries < 4 then
        (let s0 = s\<lparr>net_calls := Suc (net_calls s)\<rparr> in
         case misp_update_event e (net_calls s) evt of
           OtherFailure \<Rightarrow> (Raises OtherError, s0)
         | ConnFailure \<Rightarrow>
             save_tries e
               (logs [Log WARNING ''Connection failure, could not save event.'',
                      Log WARNING ''Unable to update %s with new indicators after %.2f seconds.''] s0)
               evt (Suc tries)
         | Saved duration \<Rightarrow>
             (Returns True,
              refresh_memory e
                (logs [Log INFO ''Updated %s with %s new indicator%s after %.2f seconds.''] s0)
                evt duration))
      else (Returns False, s))"
  by pat_completeness auto
termination
  by (relation "measure (\<lambda>(e, s, evt, tries). 4 - tries)") auto

declare save_tries.simps [simp del]

text \<open>\<open>event_thread\<close> returns \<open>evt.info\<close> whether or not the save succeeded.\<close>

definition event_thread :: "env \<Rightarrow> importer \<Rightarrow> event \<Rightarrow> nat \<Rightarrow> string py_result \<times> importer" where
  "event_thread e s evt ind_count =
     (case save_tries e s evt 1 of
        (Raises x, s1) \<Rightarrow> (Raises x, s1)
      | (Returns successful, s1) \<Rightarrow>
          (Returns (info evt),
           if \<not> successful then logs [Log ERROR ''Unable to update %s with %s new indicators.''] s1
           else s1))"

text \<open>Assignment to a key of a dictionary that keeps the order of insertion.\<close>

fun dict_set :: "'k \<Rightarrow> 'v \<Rightarrow> ('k \<times> 'v) list \<Rightarrow> ('k \<times> 'v) list" where
  "dict_set k v [] = [(k, v)]"
| "dict_set k v ((k', v') # kvs) = (if k' = k then (k, v) # kvs else (k', v') # dict_set k v kvs)"

definition get_laundry :: "importer \<Rightarrow> (string \<times> (event \<times> nat)) list" where
  "get_laundry s =
     fold (\<lambda>fe laundry. case dirty_feeds s (info fe) of
                           None \<Rightarrow> laundry
                         | Some c \<Rightarrow> dict_set (info fe) (fe, c) laundry)
          (feeds s) []"

text \<open>
  \<open>clean_laundry\<close>: one \<open>event_thread\<close> for each dirty container, again in a pool that
  runs all of them; the model runs them in the order of the laundry. \<open>saved\<close> collects
  what the workers return. The counts the method is handed only go to the log.
\<close>

fun run_saves :: "env \<Rightarrow> importer \<Rightarrow> (event \<times> nat) list \<Rightarrow> string py_result list \<times> importer" where
  "run_saves e s [] = ([], s)"
| "run_saves e s ((fe, c) # rest) =
     (case event_thread e s fe c of
        (r, s1) \<Rightarrow> (case run_saves e s1 rest of (rs, s2) \<Rightarrow> (r # rs, s2)))"

fun collect :: "'a py_result list \<Rightarrow> 'a list py_result" where
  "collect [] = Returns []"
| "collect (Raises x # rs) = Raises x"
| "collect (Returns a # rs) = (case collect rs of Raises x \<Rightarrow> Raises x | Returns as \<Rightarrow> Returns (a # as))"

definition clean_laundry :: "env \<Rightarrow> importer \<Rightarrow> string list py_result \<times> importer" where
  "clean_laundry e s =
     (case run_saves e
             (logs [Log INFO ''This batch of %s produced %s indicators for %s events.'',
                    Log INFO ''%s indicator type and %s malware family event updates were skipped.''] s)
             (map snd (get_laundry s)) of
        (rs, s1) \<Rightarrow> (collect rs, s1))"

text \<open>\<open>for cleaned in ...: self.dirty_feeds.pop(cleaned)\<close>; \<open>pop\<close> raises KeyError on a missing key.\<close>

fun pop_all :: "string list \<Rightarrow> (string \<rightharpoonup> nat) \<Rightarrow> unit py_result \<times> (string \<rightharpoonup> nat)" where
  "pop_all [] d = (Returns (), d)"
| "pop_all (cleaned # rest) d =
     (case d cleaned of None \<Rightarrow> (Raises KeyError, d) | Some c \<Rightarrow> pop_all rest (d(cleaned := None)))"

section \<open>Pushing a page and writing the checkpoint\<close>

text \<open>The body of \<open>for batch in ind_batches\<close>, and the loop.\<close>

definition push_batch :: "env \<Rightarrow> importer \<Rightarrow> indicator list \<Rightarrow> unit py_result \<times> importer" where
  "push_batch e s batch =
     (case process_indicator_batch e
             (logs [Log INFO ''Processing batch of %s indicators.''] (s\<lparr>added_sightings_count := 0\<rparr>))
             batch of
        (Raises x, s1) \<Rightarrow> (Raises x, s1)
      | (Returns t, s1) \<Rightarrow>
          (case clean_laundry e s1 of
             (Raises x, s2) \<Rightarrow> (Raises x, s2)
           | (Returns saved, s2) \<Rightarrow>
               (case pop_all saved (dirty_feeds s2) of
                  (Raises x, d) \<Rightarrow> (Raises x, s2\<lparr>dirty_feeds := d\<rparr>)
                | (Returns u, d) \<Rightarrow>
                    (Returns (),
                     logs [Log DEBUG ''Processed %s%s indicators for import into MISP.'',
                           Log DEBUG ''%s have been pushed so far out of this batch of %s.'']
                       (s2\<lparr>dirty_feeds := d\<rparr>)))))"

fun run_batches :: "env \<Rightarrow> importer \<Rightarrow> indicator list list \<Rightarrow> unit py_result \<times> importer" where
  "run_batches e s [] = (Returns (), s)"
| "run_batches e s (batch # rest) =
     (case push_batch e s batch of
        (Raises x, s1) \<Rightarrow> (Raises x, s1)
      | (Returns u, s1) \<Rightarrow> run_batches e s1 rest)"

text \<open>
  \<open>next(i.get('last_updated') for i in reversed(indicators) if i.get('last_updated') is not None)\<close>:
  \<open>None\<close> is the StopIteration of \<open>next\<close> on an exhausted generator.
\<close>

definition page_checkpoint :: "indicator list \<Rightarrow> int option" where
  "page_checkpoint indicators =
     (case List.find (\<lambda>i. ind_last_updated i \<noteq> None) (rev indicators) of
        None \<Rightarrow> None
      | Some i \<Rightarrow> ind_last_updated i)"

text \<open>The non-null \<open>last_updated\<close> values of a list of indicators, in its order.\<close>

fun last_updated_values :: "indicator list \<Rightarrow> int list" where
  "last_updated_values [] = []"
| "last_updated_values (i # rest) =
     (case ind_last_updated i of
        None \<Rightarrow> last_updated_values rest
      | Some t \<Rightarrow> t # last_updated_values rest)"

text \<open>
  \<open>_note_timestamp\<close> overwrites the timestamp file, and the file of the malware families
  without a galaxy mapping when there are any.
\<close>

definition note_timestamp :: "importer \<Rightarrow> files \<Rightarrow> int \<Rightarrow> importer \<times> files" where
  "note_timestamp s fs timestamp =
     (case MISSING_GALAXIES s of
        None \<Rightarrow> (s, fs\<lparr>ts_file := Some timestamp\<rparr>)
      | Some galaxies \<Rightarrow>
          if galaxies = [] then (s, fs\<lparr>ts_file := Some timestamp\<rparr>)
          else (logs (map (\<lambda>g. Log WARNING ''No galaxy mapping found for %s malware family.'') galaxies) s,
                fs\<lparr>ts_file := Some timestamp, miss_file := Some galaxies\<rparr>))"

text \<open>\<open>push_indicators\<close> up to the end of its loop over the batches of the page.\<close>

definition push_all_batches :: "env \<Rightarrow> importer \<Rightarrow> indicator list \<Rightarrow> unit py_result \<times> importer" where
  "push_all_batches e s indicators =
     run_batches e
       (logs [Log DEBUG ''Configuration states we should process batches of %s indicators.''] s)
       (ind_batches (nat (IND_BATCH_SIZE (cfg e))) indicators)"

definition push_indicators ::
  "env \<Rightarrow> importer \<Rightarrow> files \<Rightarrow> indicator list \<Rightarrow> unit py_result \<times> importer \<times> files" where
  "push_indicators e s fs indicators =
     (case push_all_batches e s indicators of
        (Raises x, s1) \<Rightarrow> (Raises x, s1, fs)
      | (Returns u, s1) \<Rightarrow>
          (let s2 = logs [Log INFO ''Pushed %s indicators into MISP in %.2f seconds.''] s1 in
           case page_checkpoint indicators of
             None \<Rightarrow> (Raises StopIteration, s2, fs)
           | Some last_updated \<Rightarrow>
               (case note_timestamp s2 fs last_updated of (s3, fs1) \<Rightarrow> (Returns (), s3, fs1))))"

section \<open>The run\<close>

text \<open>
  \<open>for indicators_page in ...get_indicators(...)\<close>: the pages in the order the feed
  yields them, with the count of indicators pushed so far.
\<close>

fun consume_pages ::
  "env \<Rightarrow> importer \<Rightarrow> files \<Rightarrow> indicator list list \<Rightarrow> nat \<Rightarrow> nat py_result \<times> importer \<times> files" where
  "consume_pages e s fs [] indicators_count = (Returns indicators_count, s, fs)"
| "consume_pages e s fs (indicators_page # rest) indicators_count =
     (case push_indicators e s fs indicators_page of
        (Raises x, s1, fs1) \<Rightarrow> (Raises x, s1, fs1)
      | (Returns u, s1, fs1) \<Rightarrow>
          consume_pages e s1 fs1 rest (indicators_count + length indicators_page))"

text \<open>
  \<open>process_indicators\<close>. The start of the window is the saved timestamp unless
  \<open>force\<close> is set or the file is missing; \<open>time_send_request\<close> is taken before the
  containers are set up. \<open>today\<close> and \<open>time_send_request\<close> are whole seconds.
\<close>

definition start_get_events :: "env \<Rightarrow> files \<Rightarrow> int \<Rightarrow> int" where
  "start_get_events e fs indicators_mins_before =
     (let computed = today e - 60 * min indicators_mins_before 20220 in
      if \<not> force (cfg e) then (case ts_file fs of None \<Rightarrow> computed | Some line \<Rightarrow> line)
      else computed)"

definition process_indicators ::
  "env \<Rightarrow> importer \<Rightarrow> files \<Rightarrow> int \<Rightarrow> unit py_result \<times> importer \<times> files" where
  "process_indicators e s fs indicators_mins_before =
     (let s0 = (logs [Log INFO ''Retrieving lookup data for import of CrowdStrike indicators into MISP.''] s)
                 \<lparr>feeds := retrieve_family_events e (retrieve_or_create_feed_events e (feeds s))\<rparr>
      in case find_report_indicators e s0 of
           (Raises x, s1) \<Rightarrow> (Raises x, s1, fs)
         | (Returns u, s1) \<Rightarrow>
             (case consume_pages e
                     (logs [Log INFO ''Starting import of CrowdStrike indicators into MISP.''] s1) fs
                     (get_indicators e (start_get_events e fs indicators_mins_before)
                        (delete_outdated (cfg e))) 0 of
                (Raises x, s2, fs2) \<Rightarrow> (Raises x, s2, fs2)
              | (Returns indicators_count, s2, fs2) \<Rightarrow>
                  (case (if indicators_count = 0 then note_timestamp s2 fs2 (time_send_request e)
                         else (s2, fs2)) of
                     (s3, fs3) \<Rightarrow>
                       (Returns (),
                        logs [Log INFO ''Finished importing %s CrowdStrike Threat Intelligence indicators into MISP.''] s3,
                        fs3))))"

section \<open>Attribute values of a container, and two workers at once\<close>

definition values_of :: "event \<Rightarrow> string list" where
  "values_of ev = map att_value (attributes ev)"

text \<open>No value is attached twice to the container.\<close>

definition no_duplicate_values :: "event \<Rightarrow> bool" where
  "no_duplicate_values ev = distinct (values_of ev)"

text \<open>
  The workers of a batch run in a thread pool, and the shared lock is taken for
  \<open>find_or_create_family_event\<close>, for the counters and for the dirty map, not around
  the whole of \<open>add_indicator_event\<close>. So two workers can both run the first part (up to
  the duplicate flags) before either runs the second. This is that schedule for two
  indicators; the result holds what the two workers return.
\<close>

definition both_check_then_both_attach ::
  "env \<Rightarrow> importer \<Rightarrow> indicator \<Rightarrow> indicator \<Rightarrow>
   ((nat \<times> nat) py_result \<times> (nat \<times> nat) py_result) option \<times> importer" where
  "both_check_then_both_attach e s ind1 ind2 =
     (case resolve_containers e s ind1 of
        (Raises x, s1) \<Rightarrow> (None, s1)
      | (Returns fr1, s1) \<Rightarrow>
          (case resolve_containers e s1 ind2 of
             (Raises x, s2) \<Rightarrow> (None, s2)
           | (Returns fr2, s2) \<Rightarrow>
               (case attach e s2 ind1 fr1 of
                  (r1, s3) \<Rightarrow> (case attach e s3 ind2 fr2 of (r2, s4) \<Rightarrow> (Some (r1, r2), s4)))))"

section \<open>A small installation\<close>

text \<open>
  Concrete collaborators on which the model is run: one indicator type (\<open>domain\<close>), a
  family container for the first malware family of an indicator, no tags, a destination
  that saves in ten milliseconds and accepts every sighting, a PyMISP that builds every
  attribute, and a registry that holds the container of the domain indicators.
\<close>

definition demo_settings :: misp_settings where
  "demo_settings =
     \<lparr>ind_attribute_batch_size = None, event_save_memory_refresh_interval = None,
      log_duplicates_as_sightings = False, indicator_type_title = None, force = False,
      delete_outdated = False\<rparr>"

definition demo_IndicatorType :: "string \<Rightarrow> string option" where
  "demo_IndicatorType n = (if n = ''DOMAIN'' then Some ''Domain'' else None)"

definition demo_gen_indicator :: "indicator \<Rightarrow> gen_result" where
  "demo_gen_indicator i =
     (case ind_indicator i of None \<Rightarrow> GenFalsy | Some v \<Rightarrow> GenAttribute ''domain'' v)"

definition demo_family_title :: "indicator \<Rightarrow> string option" where
  "demo_family_title i =
     (case ind_malware_families i of [] \<Rightarrow> None | fam # rest \<Rightarrow> Some (''Malware Family: '' @ fam))"

definition demo_derive_tags ::
  "indicator \<Rightarrow> string list option \<Rightarrow> (string list \<times> string list option) option" where
  "demo_derive_tags i missing = Some ([], missing)"

definition demo_saved :: "nat \<Rightarrow> event \<Rightarrow> save_outcome" where
  "demo_saved n ev = Saved 10"

definition demo_unreachable :: "nat \<Rightarrow> event \<Rightarrow> save_outcome" where
  "demo_unreachable n ev = ConnFailure"

definition demo_no_refresh :: "nat \<Rightarrow> nat \<Rightarrow> refresh_outcome" where
  "demo_no_refresh n u = RefreshNone"

definition demo_get_attribute :: "nat \<Rightarrow> nat \<Rightarrow> int option" where
  "demo_get_attribute n u = Some 0"

definition demo_add_sighting :: "nat \<Rightarrow> nat \<Rightarrow> unit attempt" where
  "demo_add_sighting n i = Responds \<lparr>errors = None, body = ()\<rparr>"

definition demo_search_empty :: "string \<Rightarrow> search_outcome" where
  "demo_search_empty ty = Found []"

definition demo_search_down :: "string \<Rightarrow> search_outcome" where
  "demo_search_down ty = ConnectionFailed"

definition demo_feed :: "indicator list list \<Rightarrow> int \<Rightarrow> bool \<Rightarrow> indicator list list" where
  "demo_feed pages start deleted = pages"

definition demo_env :: "indicator list list \<Rightarrow> env" where
  "demo_env pages =
     \<lparr>cfg = demo_settings, IndicatorType = demo_IndicatorType,
      INDICATOR_TYPES = [(''domain'', ''domain'')], gen_indicator = demo_gen_indicator,
      family_title = demo_family_title, indicator_threat = (\<lambda>i. 1),
      derive_tags = demo_derive_tags, retrieve_or_create_feed_events = (\<lambda>fs. fs),
      retrieve_family_events = (\<lambda>fs. fs), get_indicators = demo_feed pages,
      today = 1700000000, time_send_request = 1700000005,
      misp_update_event = demo_saved, misp_search_event = demo_no_refresh,
      misp_get_attribute = demo_get_attribute, super_add_sighting = demo_add_sighting,
      misp_search_attributes = demo_search_empty, add_attribute_raises = (\<lambda>ty v. False)\<rparr>"

definition domain_container :: event where
  "domain_container =
     \<lparr>info = ''Indicator Type: Domain'', evt_uuid = 0, attributes = [], objects = [],
      threat_level = 0\<rparr>"

definition demo_importer :: importer where
  "demo_importer =
     \<lparr>feeds = [domain_container], dirty_feeds = Map.empty, existing_indicators = Map.empty,
      skipped = 0, batch_update = 0, MISSING_GALAXIES = None, trace = [],
      added_sighting_count = 0, added_sightings_count = 0, sightings = [], next_uuid = 1,
      net_calls = 0\<rparr>"

definition demo_files :: files where
  "demo_files = \<lparr>ts_file = Some 900, miss_file = None\<rparr>"

definition domain_indicator :: "string \<Rightarrow> int option \<Rightarrow> indicator" where
  "domain_indicator v updated =
     \<lparr>ind_id = ''domain_'' @ v, ind_type = Some ''domain'', ind_indicator = Some v,
      ind_published_date = None, ind_last_updated = updated, ind_uuid = None,
      ind_attribute_timestamp = None, ind_malware_families = [], ind_labels = []\<rparr>"

text \<open>An indicator of the feed without the \<open>indicator\<close> field, and one of an unknown type.\<close>

definition no_value_indicator :: indicator where
  "no_value_indicator = (domain_indicator ''none'' (Some 1000))\<lparr>ind_indicator := None\<rparr>"

definition unknown_type_indicator :: indicator where
  "unknown_type_indicator = (domain_indicator ''x.example'' (Some 1000))\<lparr>ind_type := Some ''telepathy''\<rparr>"

text \<open>
  Two pages of the feed with non-decreasing \<open>last_updated\<close> values, a page whose only
  indicator has none, and variants of the installation: a destination that refuses every
  save, and one whose attribute search cannot connect.
\<close>

definition first_page :: "indicator list" where
  "first_page = [domain_indicator ''a.example'' (Some 1000), domain_indicator ''b.example'' None]"

definition second_page :: "indicator list" where
  "second_page =
     [domain_indicator ''c.example'' (Some 1000), domain_indicator ''d.example'' (Some 2000)]"

definition undated_page :: "indicator list" where
  "undated_page = [domain_indicator ''a.example'' None]"

definition evil_page :: "indicator list" where
  "evil_page = [domain_indicator ''evil.example'' (Some 1000)]"

definition unreachable_env :: env where
  "unreachable_env = (demo_env [])\<lparr>misp_update_event := demo_unreachable\<rparr>"

definition search_down_env :: env where
  "search_down_env = (demo_env [])\<lparr>misp_search_attributes := demo_search_down\<rparr>"

text \<open>The run of the small installation over the first page.\<close>

definition after_first_page :: "nat py_result \<times> importer \<times> files" where
  "after_first_page = consume_pages (demo_env []) demo_importer demo_files [first_page] 0"

text \<open>Pages with one indicator that cannot be mapped, followed by a good one.\<close>

definition missing_value_page :: "indicator list" where
  "missing_value_page = [no_value_indicator, domain_indicator ''good.example'' (Some 1000)]"

definition unknown_type_page :: "indicator list" where
  "unknown_type_page = [unknown_type_indicator, domain_indicator ''good.example'' (Some 1000)]"

definition evil_indicator :: indicator where
  "evil_indicator = domain_indicator ''evil.example'' (Some 1000)"

text \<open>
  The installation with a configured batch size of 10, and the number of batches a run has
  started: \<open>push_indicators\<close> logs one line at the head of every batch.
\<close>

definition small_batches_env :: env where
  "small_batches_env = (demo_env [])\<lparr>cfg := demo_settings\<lparr>ind_attribute_batch_size := Some 10\<rparr>\<rparr>"

definition batch_starts :: "importer \<Rightarrow> nat" where
  "batch_starts s =
     length (filter (\<lambda>x. x = Log INFO ''Processing batch of %s indicators.'') (trace s))"

section \<open>Theorems: the retrying transport\<close>

lemma try_body_failed:
  "attempt_failed (f i) \<Longrightarrow> snd (try_body f i) = None"
  by (cases "f i") (auto simp: try_body_def split: option.splits)

lemma try_body_404:
  "f i = Responds r \<Longrightarrow> errors r = Some ep \<Longrightarrow> err_code ep = Some 404 \<Longrightarrow>
   try_body f i = ([], Some r)"
  by (simp add: try_body_def)

lemma retry_from_failed:
  assumes "i < MAX_RETRIES" and "attempt_failed (f i)"
  shows "snd (retry_from f i) = snd (retry_from f (Suc i))"
    and "fst (retry_from f i) = fst (try_body f i) @ fst (retry_from f (Suc i))"
proof -
  obtain t where t: "try_body f i = (t, None)"
    using try_body_failed [of f i] assms(2) by (cases "try_body f i") auto
  show "snd (retry_from f i) = snd (retry_from f (Suc i))"
    using assms(1) t by (subst retry_from.simps) (simp split: prod.splits)
  show "fst (retry_from f i) = fst (try_body f i) @ fst (retry_from f (Suc i))"
    using assms(1) t by (subst retry_from.simps) (simp split: prod.splits)
qed

lemma retry_from_end: "retry_from f MAX_RETRIES = ([], Returns None)"
  by (subst retry_from.simps) simp

lemma last_attempt_logs:
  "attempt_failed (f 2) \<Longrightarrow> Log ERROR ''Exceeded number of retries.'' \<in> set (fst (try_body f 2))"
  by (cases "f 2") (auto simp: try_body_def except_clause_def MAX_RETRIES_def split: option.splits)

lemma retry_from_404:
  assumes "i < MAX_RETRIES" "f i = Responds r" "errors r = Some ep" "err_code ep = Some 404"
  shows "snd (retry_from f i) = Returns (Some r)"
  using assms by (subst retry_from.simps) (simp add: try_body_404)

lemma retry_from_skip_failed:
  "k \<le> i \<Longrightarrow> i < MAX_RETRIES \<Longrightarrow> (\<forall>j<i. attempt_failed (f j)) \<Longrightarrow>
   snd (retry_from f (i - k)) = snd (retry_from f i)"
proof (induction k)
  case 0
  then show ?case by simp
next
  case (Suc k)
  then have "snd (retry_from f (i - Suc k)) = snd (retry_from f (Suc (i - Suc k)))"
    by (intro retry_from_failed(1)) auto
  also have "Suc (i - Suc k) = i - k" using Suc.prems by simp
  finally show ?case using Suc by simp
qed

text \<open>
  C2, as stated, at a destination that answers all three attempts with the application
  error 500: every attempt fails, and \<open>_retry\<close> returns \<open>None\<close> to its caller; no
  exception leaves it.
\<close>

theorem retry_exhausted_counterexample:
  "attempt_failed (always_500 0) \<and> attempt_failed (always_500 1) \<and> attempt_failed (always_500 2) \<and>
   snd (MISP_retry always_500) = Returns None \<and>
   snd (MISP_retry always_500) \<noteq> Raises PyMISPError"
  by (simp add: MISP_retry_def retry_from.simps [of always_500] try_body_def always_500_def
      MAX_RETRIES_def except_clause_def)

text \<open>
  C2, amended: when all three attempts fail (each one raises, or answers with an
  \<open>"errors"\<close> entry whose first element is not 404), \<open>_retry\<close> logs the error
  "Exceeded number of retries" and returns \<open>None\<close> to its caller, without raising; and a
  response whose first error element is 404 is returned as the result on whichever of the
  three attempts it arrives, the attempts before it having failed.
\<close>

theorem retry_exhausted_returns_None:
  "((\<forall>i<MAX_RETRIES. attempt_failed (f i)) \<longrightarrow>
      snd (MISP_retry f) = Returns None \<and>
      Log ERROR ''Exceeded number of retries.'' \<in> set (fst (MISP_retry f)))
   \<and> (k < MAX_RETRIES \<and> (\<forall>j<k. attempt_failed (f j)) \<and> f k = Responds r \<and>
        errors r = Some ep \<and> err_code ep = Some 404 \<longrightarrow>
      snd (MISP_retry f) = Returns (Some r))"
proof (intro conjI impI)
  assume all: "\<forall>i<MAX_RETRIES. attempt_failed (f i)"
  then have f0: "attempt_failed (f 0)" and f1: "attempt_failed (f 1)" and f2: "attempt_failed (f 2)"
    by (simp_all add: MAX_RETRIES_def)
  have s: "snd (retry_from f 0) = snd (retry_from f 3)"
    using retry_from_failed(1) [of 0 f] retry_from_failed(1) [of 1 f] retry_from_failed(1) [of 2 f]
      f0 f1 f2
    by (simp add: MAX_RETRIES_def numeral_2_eq_2 numeral_3_eq_3)
  show "snd (MISP_retry f) = Returns None"
    using s retry_from_end [of f] by (simp add: MISP_retry_def MAX_RETRIES_def)
  have "fst (retry_from f 0) =
        fst (try_body f 0) @ fst (try_body f 1) @ fst (try_body f 2) @ fst (retry_from f 3)"
    using retry_from_failed(2) [of 0 f] retry_from_failed(2) [of 1 f] retry_from_failed(2) [of 2 f]
      f0 f1 f2
    by (simp add: MAX_RETRIES_def numeral_2_eq_2 numeral_3_eq_3)
  then show "Log ERROR ''Exceeded number of retries.'' \<in> set (fst (MISP_retry f))"
    using last_attempt_logs [of f] f2 by (simp add: MISP_retry_def)
next
  assume h: "k < MAX_RETRIES \<and> (\<forall>j<k. attempt_failed (f j)) \<and> f k = Responds r \<and>
        errors r = Some ep \<and> err_code ep = Some 404"
  then have "snd (retry_from f (k - k)) = snd (retry_from f k)"
    by (intro retry_from_skip_failed) auto
  then show "snd (MISP_retry f) = Returns (Some r)"
    using h retry_from_404 [of k f r ep] by (simp add: MISP_retry_def)
qed

theorem retry_exhausted_witness:
  "snd (MISP_retry always_500) = Returns None \<and>
   Log ERROR ''Exceeded number of retries.'' \<in> set (fst (MISP_retry always_500)) \<and>
   snd (MISP_retry third_is_404) = Returns (Some not_found_response)"
  using retry_exhausted_returns_None [of always_500 0 undefined undefined]
    retry_exhausted_returns_None [of third_is_404 2 not_found_response
      "\<lparr>err_code = Some 404, err_message = Some ''Not found''\<rparr>"]
  by (simp add: always_500_def third_is_404_def not_found_response_def MAX_RETRIES_def
      less_Suc_eq numeral_2_eq_2)

section \<open>Theorems: the batch size\<close>

lemma concat_chunks:
  "concat (map (\<lambda>i. py_slice xs i (i + b)) (map (\<lambda>k. k * b) [0..<m])) = take (m * b) xs"
proof (induction m)
  case 0
  then show ?case by simp
next
  case (Suc m)
  have "take (b + m * b) xs = take (m * b) xs @ take b (drop (m * b) xs)"
    using take_add [of "m * b" b xs] by (simp add: add.commute)
  with Suc show ?case
    by (simp add: py_slice_def)
qed

lemma chunks_cover: "0 < b \<Longrightarrow> n \<le> (n + b - 1) div b * (b::nat)"
proof -
  assume b: "0 < b"
  have "(n + b - 1) div b * b + (n + b - 1) mod b = n + b - 1" by simp
  moreover have "(n + b - 1) mod b < b" using b by simp
  ultimately show ?thesis by linarith
qed

lemma concat_ind_batches: "0 < b \<Longrightarrow> concat (ind_batches b xs) = xs"
  using concat_chunks [of xs b "(length xs + b - 1) div b"] chunks_cover [of b "length xs"]
  by (simp add: ind_batches_def range_step_def)

lemma length_ind_batches: "list_all (\<lambda>batch. length batch \<le> b) (ind_batches b xs)"
  by (simp add: ind_batches_def range_step_def py_slice_def list_all_iff)

text \<open>
  The cut is exact: every batch but the last has \<open>b\<close> elements, and the last has the
  rest.
\<close>

lemma ceil_div_aux:
  assumes "r < (b::nat)"
  shows "(q * b + r + b - 1) div b = q + (if r = 0 then 0 else 1)"
proof (cases "r = 0")
  case True
  have "(q * b + b - 1) div b = q"
  proof (rule div_nat_eqI)
    show "b * q \<le> q * b + b - 1" using assms by (simp add: mult.commute)
    show "q * b + b - 1 < b * Suc q" using assms by (simp add: mult.commute)
  qed
  with True show ?thesis by simp
next
  case False
  have "(q * b + r + b - 1) div b = Suc q"
  proof (rule div_nat_eqI)
    show "b * Suc q \<le> q * b + r + b - 1" using assms False by (simp add: mult.commute)
    show "q * b + r + b - 1 < b * Suc (Suc q)" using assms False by (simp add: mult.commute)
  qed
  with False show ?thesis by simp
qed

lemma ceil_div:
  assumes "0 < (b::nat)"
  shows "(n + b - 1) div b = n div b + (if n mod b = 0 then 0 else 1)"
  using ceil_div_aux [of "n mod b" b "n div b"] assms by simp

lemma length_batch:
  "length (py_slice xs (k * b) (k * b + b)) = min b (length xs - k * b)"
  by (simp add: py_slice_def)

lemma map_length_ind_batches:
  assumes "0 < b"
  shows "map length (ind_batches b xs) =
           replicate (length xs div b) b @
           (if length xs mod b = 0 then [] else [length xs mod b])"
proof -
  let ?n = "length xs"
  let ?q = "?n div b"
  have full: "map (\<lambda>k. min b (?n - k * b)) [0..<?q] = replicate ?q b"
  proof -
    have "\<And>k. k \<in> set [0..<?q] \<Longrightarrow> min b (?n - k * b) = b"
    proof -
      fix k assume "k \<in> set [0..<?q]"
      then have "Suc k \<le> ?q" by simp
      then have "Suc k * b \<le> ?q * b" by (rule mult_le_mono1)
      also have "?q * b \<le> ?n" by simp
      finally show "min b (?n - k * b) = b" by simp
    qed
    then have "map (\<lambda>k. min b (?n - k * b)) [0..<?q] = map (\<lambda>k. b) [0..<?q]"
      by (intro map_cong) simp_all
    then show ?thesis by (simp add: map_replicate_const)
  qed
  have last_one: "min b (?n - ?q * b) = ?n mod b"
  proof -
    have "?n - ?q * b = ?n mod b" by (simp add: minus_div_mult_eq_mod)
    moreover have "?n mod b < b" using assms by simp
    ultimately show ?thesis by simp
  qed
  have "map length (ind_batches b xs) = map (\<lambda>k. min b (?n - k * b)) [0..<(?n + b - 1) div b]"
    by (simp add: ind_batches_def range_step_def comp_def length_batch)
  also have "\<dots> = map (\<lambda>k. min b (?n - k * b)) [0..<?q + (if ?n mod b = 0 then 0 else 1)]"
    by (simp only: ceil_div [OF assms])
  also have "\<dots> = replicate ?q b @ (if ?n mod b = 0 then [] else [?n mod b])"
    using full last_one by (cases "?n mod b = 0") simp_all
  finally show ?thesis .
qed

text \<open>
  C8: the effective batch size is the configured \<open>ind_attribute_batch_size\<close> clamped to
  the interval from 50 to 5000, with 500 when nothing is configured: for every configured
  value \<open>v\<close> it is \<open>max 50 (min 5000 v)\<close>, it always lies in the interval, 10 gives 50
  and 100000 gives 5000. It is the size at which \<open>push_indicators\<close> cuts a page: the
  batches it runs are those of the clamped size, every batch but the last has exactly that
  many indicators, the last has the rest, and put together they are the page. A page of
  120 indicators is cut into 50, 50 and 20 when 10 is configured, and a page of 12000 into
  5000, 5000 and 2000 when 100000 is configured; a page of 51 indicators is pushed in two
  batches when 10 is configured and in one with the default.
\<close>

theorem ind_batch_size_clamped:
  "IND_BATCH_SIZE (c\<lparr>ind_attribute_batch_size := Some v\<rparr>) = max 50 (min 5000 v) \<and>
   IND_BATCH_SIZE (c\<lparr>ind_attribute_batch_size := None\<rparr>) = 500 \<and>
   50 \<le> IND_BATCH_SIZE c \<and> IND_BATCH_SIZE c \<le> 5000 \<and>
   IND_BATCH_SIZE (c\<lparr>ind_attribute_batch_size := Some 10\<rparr>) = 50 \<and>
   IND_BATCH_SIZE (c\<lparr>ind_attribute_batch_size := Some 100000\<rparr>) = 5000 \<and>
   push_all_batches e s page =
     run_batches e
       (logs [Log DEBUG ''Configuration states we should process batches of %s indicators.''] s)
       (ind_batches
          (nat (max 50 (min 5000
             (case ind_attribute_batch_size (cfg e) of None \<Rightarrow> 500 | Some w \<Rightarrow> w))))
          page) \<and>
   map (\<lambda>batch. int (length batch)) (ind_batches (nat (IND_BATCH_SIZE c)) indicators) =
     replicate (length indicators div nat (IND_BATCH_SIZE c)) (IND_BATCH_SIZE c) @
     (if length indicators mod nat (IND_BATCH_SIZE c) = 0 then []
      else [int (length indicators mod nat (IND_BATCH_SIZE c))]) \<and>
   list_all (\<lambda>batch. int (length batch) \<le> IND_BATCH_SIZE c)
     (ind_batches (nat (IND_BATCH_SIZE c)) indicators) \<and>
   concat (ind_batches (nat (IND_BATCH_SIZE c)) indicators) = indicators \<and>
   map length (ind_batches (nat (IND_BATCH_SIZE (c\<lparr>ind_attribute_batch_size := Some 10\<rparr>)))
                 (replicate 120 x)) = [50, 50, 20] \<and>
   map length (ind_batches (nat (IND_BATCH_SIZE (c\<lparr>ind_attribute_batch_size := Some 100000\<rparr>)))
                 (replicate 12000 x)) = [5000, 5000, 2000] \<and>
   batch_starts (fst (snd (push_indicators small_batches_env demo_importer demo_files
                             (replicate 51 evil_indicator)))) = 2 \<and>
   batch_starts (fst (snd (push_indicators (demo_env []) demo_importer demo_files
                             (replicate 51 evil_indicator)))) = 1"
proof -
  have pos: "0 < nat (IND_BATCH_SIZE c)"
    by (simp add: IND_BATCH_SIZE_def)
  have nonneg: "int (nat (IND_BATCH_SIZE c)) = IND_BATCH_SIZE c"
    by (simp add: IND_BATCH_SIZE_def)
  have size: "IND_BATCH_SIZE (c\<lparr>ind_attribute_batch_size := Some v\<rparr>) = max 50 (min 5000 v) \<and>
      IND_BATCH_SIZE (c\<lparr>ind_attribute_batch_size := None\<rparr>) = 500 \<and>
      50 \<le> IND_BATCH_SIZE c \<and> IND_BATCH_SIZE c \<le> 5000 \<and>
      IND_BATCH_SIZE (c\<lparr>ind_attribute_batch_size := Some 10\<rparr>) = 50 \<and>
      IND_BATCH_SIZE (c\<lparr>ind_attribute_batch_size := Some 100000\<rparr>) = 5000"
    by (simp add: IND_BATCH_SIZE_def split: option.splits)
  have push: "push_all_batches e s page =
     run_batches e
       (logs [Log DEBUG ''Configuration states we should process batches of %s indicators.''] s)
       (ind_batches
          (nat (max 50 (min 5000
             (case ind_attribute_batch_size (cfg e) of None \<Rightarrow> 500 | Some w \<Rightarrow> w))))
          page)"
    by (simp add: push_all_batches_def IND_BATCH_SIZE_def)
  have "map (\<lambda>batch. int (length batch)) (ind_batches (nat (IND_BATCH_SIZE c)) indicators) =
        map int (map length (ind_batches (nat (IND_BATCH_SIZE c)) indicators))"
    by simp
  also have "\<dots> = replicate (length indicators div nat (IND_BATCH_SIZE c)) (IND_BATCH_SIZE c) @
     (if length indicators mod nat (IND_BATCH_SIZE c) = 0 then []
      else [int (length indicators mod nat (IND_BATCH_SIZE c))])"
    by (simp only: map_length_ind_batches [OF pos]) (simp add: nonneg)
  finally have exact: "map (\<lambda>batch. int (length batch)) (ind_batches (nat (IND_BATCH_SIZE c)) indicators) =
     replicate (length indicators div nat (IND_BATCH_SIZE c)) (IND_BATCH_SIZE c) @
     (if length indicators mod nat (IND_BATCH_SIZE c) = 0 then []
      else [int (length indicators mod nat (IND_BATCH_SIZE c))])" .
  have "list_all (\<lambda>batch. length batch \<le> nat (IND_BATCH_SIZE c))
          (ind_batches (nat (IND_BATCH_SIZE c)) indicators)"
    by (rule length_ind_batches)
  then have len: "list_all (\<lambda>batch. int (length batch) \<le> IND_BATCH_SIZE c)
          (ind_batches (nat (IND_BATCH_SIZE c)) indicators)"
  proof (rule list.pred_mono_strong)
    fix z :: "'a list"
    assume "length z \<le> nat (IND_BATCH_SIZE c)"
    with pos show "int (length z) \<le> IND_BATCH_SIZE c"
      by (simp add: le_nat_iff)
  qed
  have cat: "concat (ind_batches (nat (IND_BATCH_SIZE c)) indicators) = indicators"
    by (rule concat_ind_batches [OF pos])
  have ex10: "map length (ind_batches (nat (IND_BATCH_SIZE (c\<lparr>ind_attribute_batch_size := Some 10\<rparr>)))
                 (replicate 120 x)) = [50, 50, 20]"
    using map_length_ind_batches [of 50 "replicate 120 x"]
    by (simp add: IND_BATCH_SIZE_def numeral_2_eq_2)
  have ex5000: "map length (ind_batches (nat (IND_BATCH_SIZE (c\<lparr>ind_attribute_batch_size := Some 100000\<rparr>)))
                 (replicate 12000 x)) = [5000, 5000, 2000]"
    using map_length_ind_batches [of 5000 "replicate 12000 x"]
    by (simp add: IND_BATCH_SIZE_def numeral_2_eq_2)
  have run10: "batch_starts (fst (snd (push_indicators small_batches_env demo_importer demo_files
                             (replicate 51 evil_indicator)))) = 2"
    by code_simp
  have run500: "batch_starts (fst (snd (push_indicators (demo_env []) demo_importer demo_files
                             (replicate 51 evil_indicator)))) = 1"
    by code_simp
  from size push exact len cat ex10 ex5000 run10 run500 show ?thesis
    by blast
qed

section \<open>Theorems: the checkpoint of a page\<close>

lemma last_updated_values_append:
  "last_updated_values (xs @ ys) = last_updated_values xs @ last_updated_values ys"
  by (induction xs) (auto split: option.splits)

lemma last_updated_values_Nil:
  "(\<forall>i\<in>set indicators. ind_last_updated i = None) \<Longrightarrow> last_updated_values indicators = []"
  by (induction indicators) auto

text \<open>
  Scanning the page from its end for the first non-null \<open>last_updated\<close> finds the last
  non-null value of the page, and nothing when the page has none.
\<close>

lemma page_checkpoint_last:
  "page_checkpoint indicators =
     (if last_updated_values indicators = [] then None
      else Some (last (last_updated_values indicators)))"
proof (induction indicators rule: rev_induct)
  case Nil
  then show ?case by (simp add: page_checkpoint_def)
next
  case (snoc x xs)
  then show ?case
    by (cases "ind_last_updated x")
       (auto simp: page_checkpoint_def last_updated_values_append split: option.splits)
qed

lemma page_checkpoint_None:
  "(\<forall>i\<in>set indicators. ind_last_updated i = None) \<Longrightarrow> page_checkpoint indicators = None"
  by (simp add: page_checkpoint_last last_updated_values_Nil)

lemma range_step_0: "0 < b \<Longrightarrow> range_step 0 b = []"
  by (simp add: range_step_def)

lemma batch_size_pos: "0 < nat (IND_BATCH_SIZE c)"
  by (simp add: IND_BATCH_SIZE_def)

lemma ind_batches_page_Nil: "ind_batches (nat (IND_BATCH_SIZE c)) [] = []"
  using batch_size_pos [of c] by (simp add: ind_batches_def range_step_0)

lemma push_all_batches_Nil:
  "push_all_batches e s [] =
     (Returns (),
      logs [Log DEBUG ''Configuration states we should process batches of %s indicators.''] s)"
  by (simp add: push_all_batches_def ind_batches_page_Nil)

text \<open>
  C9: on a page in which no indicator carries a non-null \<open>last_updated\<close>,
  \<open>push_indicators\<close> never returns: it raises, and the files are as they were, so no
  checkpoint is written for the page. When the batches of the page go through, what it
  raises is the StopIteration of \<open>next\<close>; for the empty page this is always so.
\<close>

theorem no_last_updated_raises_StopIteration:
  assumes "\<forall>i\<in>set indicators. ind_last_updated i = None"
  shows "(\<exists>x s1. push_indicators e s fs indicators = (Raises x, s1, fs)) \<and>
         (fst (push_all_batches e s indicators) = Returns () \<longrightarrow>
            fst (push_indicators e s fs indicators) = Raises StopIteration) \<and>
         fst (push_indicators e s fs []) = Raises StopIteration \<and>
         snd (snd (push_indicators e s fs [])) = fs"
proof -
  have none: "page_checkpoint indicators = None"
    using assms by (rule page_checkpoint_None)
  have 1: "\<exists>x s1. push_indicators e s fs indicators = (Raises x, s1, fs)"
    using none by (auto simp: push_indicators_def split: prod.splits py_result.splits)
  have 2: "fst (push_all_batches e s indicators) = Returns () \<longrightarrow>
            fst (push_indicators e s fs indicators) = Raises StopIteration"
    using none by (auto simp: push_indicators_def split: prod.splits py_result.splits)
  have 3: "fst (push_indicators e s fs []) = Raises StopIteration \<and>
           snd (snd (push_indicators e s fs [])) = fs"
    by (simp add: push_indicators_def push_all_batches_Nil page_checkpoint_def)
  from 1 2 3 show ?thesis by blast
qed

theorem no_last_updated_witness:
  "fst (push_indicators (demo_env []) demo_importer demo_files undated_page) = Raises StopIteration \<and>
   snd (snd (push_indicators (demo_env []) demo_importer demo_files undated_page)) = demo_files \<and>
   fst (push_indicators (demo_env []) demo_importer demo_files []) = Raises StopIteration"
proof -
  have h: "\<forall>i\<in>set undated_page. ind_last_updated i = None"
    by (simp add: undated_page_def domain_indicator_def)
  have b: "fst (push_all_batches (demo_env []) demo_importer undated_page) = Returns ()"
    by code_simp
  from no_last_updated_raises_StopIteration [OF h, of "demo_env []" demo_importer demo_files] b
  show ?thesis by auto
qed

section \<open>Theorems: checkpoints from page to page\<close>

lemma push_indicators_Returns:
  assumes "push_indicators e s fs indicators = (Returns u, s1, fs1)"
  shows "ts_file fs1 = page_checkpoint indicators \<and> page_checkpoint indicators \<noteq> None"
  using assms
  by (auto simp: push_indicators_def note_timestamp_def Let_def
      split: prod.splits py_result.splits option.splits if_splits)

lemma consume_pages_Returns:
  "pages \<noteq> [] \<Longrightarrow> consume_pages e s fs pages n = (Returns n1, s1, fs1) \<Longrightarrow>
   ts_file fs1 = page_checkpoint (last pages) \<and> page_checkpoint (last pages) \<noteq> None"
proof (induction pages arbitrary: s fs n)
  case Nil
  then show ?case by simp
next
  case (Cons p ps)
  obtain r s' fs' where p: "push_indicators e s fs p = (r, s', fs')"
    by (cases "push_indicators e s fs p") auto
  with Cons.prems(2) obtain u where r: "r = Returns u"
    by (cases r) auto
  show ?case
  proof (cases "ps = []")
    case True
    with Cons.prems(2) p r have "fs1 = fs'" by simp
    with push_indicators_Returns [of e s fs p u s' fs'] p r True show ?thesis by simp
  next
    case False
    from Cons.prems(2) p r have "consume_pages e s' fs' ps (n + length p) = (Returns n1, s1, fs1)"
      by simp
    with Cons.IH [OF False] False show ?thesis by simp
  qed
qed

lemma sorted_last_le:
  "sorted (as @ bs @ cs) \<Longrightarrow> bs \<noteq> [] \<Longrightarrow> cs \<noteq> [] \<Longrightarrow> last bs \<le> last (cs :: int list)"
  by (auto simp: sorted_append)

text \<open>
  C6: let the pages up to page N-1 have been processed (at least one page), and then page
  N, and let the non-null \<open>last_updated\<close> values of these pages, read in the order of the
  feed, be non-decreasing. Then the timestamp file holds, after page N-1, the last non-null
  \<open>last_updated\<close> of page N-1, and after page N the last non-null \<open>last_updated\<close> of
  page N, and the second is not smaller than the first.
\<close>

theorem checkpoint_monotone:
  assumes "sorted (last_updated_values (concat (pages @ [page])))"
    and "pages \<noteq> []"
    and "consume_pages e s fs pages n = (Returns n1, s1, fs1)"
    and "push_indicators e s1 fs1 page = (Returns u, s2, fs2)"
  shows "\<exists>c1 c2. ts_file fs1 = Some c1 \<and> ts_file fs2 = Some c2 \<and> c1 \<le> c2 \<and>
           c1 = last (last_updated_values (last pages)) \<and>
           c2 = last (last_updated_values page) \<and>
           page_checkpoint page = Some c2"
proof -
  from consume_pages_Returns [OF assms(2,3)]
  have a: "ts_file fs1 = page_checkpoint (last pages)" "page_checkpoint (last pages) \<noteq> None"
    by simp_all
  from push_indicators_Returns [OF assms(4)]
  have b: "ts_file fs2 = page_checkpoint page" "page_checkpoint page \<noteq> None"
    by simp_all
  from a(2) have ne1: "last_updated_values (last pages) \<noteq> []"
    by (simp add: page_checkpoint_last split: if_splits)
  from b(2) have ne2: "last_updated_values page \<noteq> []"
    by (simp add: page_checkpoint_last split: if_splits)
  from assms(2) have "pages = butlast pages @ [last pages]" by simp
  then have "concat (pages @ [page]) = concat (butlast pages) @ last pages @ page"
    by (metis append_assoc concat.simps(2) concat_append self_append_conv concat.simps(1))
  with assms(1) have "sorted (last_updated_values (concat (butlast pages))
      @ last_updated_values (last pages) @ last_updated_values page)"
    by (simp add: last_updated_values_append)
  from sorted_last_le [OF this ne1 ne2]
  have "last (last_updated_values (last pages)) \<le> last (last_updated_values page)" .
  with a b ne1 ne2 show ?thesis
    by (simp add: page_checkpoint_last)
qed

theorem checkpoint_monotone_witness:
  "sorted (last_updated_values (concat ([first_page] @ [second_page]))) \<and>
   fst (consume_pages (demo_env []) demo_importer demo_files [first_page] 0) = Returns 2 \<and>
   fst (push_indicators (demo_env []) (fst (snd after_first_page)) (snd (snd after_first_page))
          second_page) = Returns () \<and>
   ts_file (snd (snd after_first_page)) = Some 1000 \<and>
   ts_file (snd (snd (push_indicators (demo_env []) (fst (snd after_first_page))
                        (snd (snd after_first_page)) second_page))) = Some 2000"
proof -
  let ?e = "demo_env []"
  let ?p = "push_indicators ?e (fst (snd after_first_page)) (snd (snd after_first_page)) second_page"
  have h1: "sorted (last_updated_values (concat ([first_page] @ [second_page])))"
    by (simp add: first_page_def second_page_def domain_indicator_def)
  have h2: "[first_page] \<noteq> []" by simp
  have r3: "fst (consume_pages ?e demo_importer demo_files [first_page] 0) = Returns 2"
    by code_simp
  have h3: "consume_pages ?e demo_importer demo_files [first_page] 0 =
              (Returns 2, fst (snd after_first_page), snd (snd after_first_page))"
    using r3 by (simp add: after_first_page_def prod_eq_iff)
  have r4: "fst ?p = Returns ()"
    by code_simp
  have h4: "?p = (Returns (), fst (snd ?p), snd (snd ?p))"
    using r4 by (simp add: prod_eq_iff)
  have v1: "last (last_updated_values (last [first_page])) = 1000"
    by (simp add: first_page_def domain_indicator_def)
  have v2: "last (last_updated_values second_page) = 2000"
    by (simp add: second_page_def domain_indicator_def)
  from checkpoint_monotone [OF h1 h2 h3 h4] v1 v2 h1 r3 r4 show ?thesis
    by auto
qed

section \<open>Theorems: the worker boundary\<close>

lemma falsy_indicator_field:
  "ind_indicator ind = None \<or> ind_indicator ind = Some [] \<Longrightarrow> \<not> truthy_str (ind_indicator ind)"
  by (auto simp: truthy_str_def)

text \<open>
  What one worker raises, the batch raises: \<open>fut.result()\<close> hands it on. So a batch
  that holds an indicator without a value never returns its counts.
\<close>

lemma count_results_Raises:
  "Raises x \<in> set rs \<Longrightarrow> \<exists>y. count_results rs t = Raises y"
  by (induction rs t rule: count_results.induct) auto

lemma run_workers_unbound_local:
  "ind \<in> set batch \<Longrightarrow> ind_indicator ind = None \<or> ind_indicator ind = Some [] \<Longrightarrow>
   Raises UnboundLocalError \<in> set (fst (run_workers e s batch))"
proof (induction batch arbitrary: s)
  case Nil
  then show ?case by simp
next
  case (Cons a batch)
  show ?case
  proof (cases "a = ind")
    case True
    with falsy_indicator_field [OF Cons.prems(2)] show ?thesis
      by (simp add: indicator_thread_def split: prod.splits)
  next
    case False
    with Cons.prems have mem: "ind \<in> set batch" by simp
    obtain r s1 where t: "indicator_thread e s a = (r, s1)"
      by (cases "indicator_thread e s a") auto
    obtain rs s2 where w: "run_workers e s1 batch = (rs, s2)"
      by (cases "run_workers e s1 batch") auto
    from Cons.IH [OF mem Cons.prems(2), of s1] w have "Raises UnboundLocalError \<in> set rs"
      by simp
    with t w show ?thesis by simp
  qed
qed

lemma batch_with_missing_value_raises:
  "ind \<in> set batch \<Longrightarrow> ind_indicator ind = None \<or> ind_indicator ind = Some [] \<Longrightarrow>
   \<exists>x. fst (process_indicator_batch e s batch) = Raises x"
  using run_workers_unbound_local [of ind batch e "s\<lparr>batch_update := 0\<rparr>"]
    count_results_Raises [of UnboundLocalError]
  by (auto simp: process_indicator_batch_def split: prod.splits)

text \<open>
  C10: for a work item whose \<open>indicator\<close> field is missing or empty,
  \<open>indicator_thread\<close> raises UnboundLocalError, and has done nothing before: nothing is
  logged and no counter has moved. The item is not skipped at the worker boundary: every
  batch that holds it raises out of \<open>process_indicator_batch\<close>.
\<close>

theorem indicator_thread_unbound_local:
  assumes "ind_indicator ind = None \<or> ind_indicator ind = Some []"
  shows "indicator_thread e s ind = (Raises UnboundLocalError, s) \<and>
         (ind \<in> set batch \<longrightarrow> (\<exists>x. fst (process_indicator_batch e s0 batch) = Raises x))"
proof
  show "indicator_thread e s ind = (Raises UnboundLocalError, s)"
    using falsy_indicator_field [OF assms] by (simp add: indicator_thread_def)
  show "ind \<in> set batch \<longrightarrow> (\<exists>x. fst (process_indicator_batch e s0 batch) = Raises x)"
    using batch_with_missing_value_raises [of ind batch e s0] assms by blast
qed

theorem indicator_thread_unbound_local_witness:
  "indicator_thread (demo_env []) demo_importer no_value_indicator =
     (Raises UnboundLocalError, demo_importer) \<and>
   indicator_thread (demo_env []) demo_importer (no_value_indicator\<lparr>ind_indicator := Some []\<rparr>) =
     (Raises UnboundLocalError, demo_importer) \<and>
   (\<exists>x. fst (process_indicator_batch (demo_env []) demo_importer missing_value_page) = Raises x)"
  using indicator_thread_unbound_local
      [of no_value_indicator "demo_env []" demo_importer missing_value_page demo_importer]
    indicator_thread_unbound_local
      [of "no_value_indicator\<lparr>ind_indicator := Some []\<rparr>" "demo_env []" demo_importer "[]"
          demo_importer]
  by (simp add: no_value_indicator_def missing_value_page_def)

text \<open>
  C4 at its failing inputs: a page whose first indicator has no \<open>indicator\<close> field, and
  a page whose first indicator has a type the enumeration does not know, each followed by a
  good indicator. \<open>push_indicators\<close> raises (UnboundLocalError, KeyError). The worker
  of the good indicator has attached its attribute in memory, but nothing about the bad
  indicator is logged, the dirty container is never saved (no call reaches the destination)
  and no checkpoint is written.
\<close>

theorem mapping_error_aborts_batch:
  "fst (push_indicators (demo_env []) demo_importer demo_files missing_value_page) =
     Raises UnboundLocalError \<and>
   fst (push_indicators (demo_env []) demo_importer demo_files unknown_type_page) =
     Raises KeyError \<and>
   trace (fst (snd (push_indicators (demo_env []) demo_importer demo_files missing_value_page))) =
     [Log DEBUG ''Configuration states we should process batches of %s indicators.'',
      Log INFO ''Processing batch of %s indicators.'',
      Log DEBUG ''Added %s indicators to event %s'',
      Log DEBUG ''Creating attribute for indicator %s''] \<and>
   net_calls (fst (snd (push_indicators (demo_env []) demo_importer demo_files missing_value_page))) = 0 \<and>
   dirty_feeds (fst (snd (push_indicators (demo_env []) demo_importer demo_files missing_value_page)))
     ''Indicator Type: Domain'' = Some 1 \<and>
   snd (snd (push_indicators (demo_env []) demo_importer demo_files missing_value_page)) = demo_files \<and>
   snd (snd (push_indicators (demo_env []) demo_importer demo_files unknown_type_page)) = demo_files"
  by code_simp

section \<open>Theorems: the flush\<close>

text \<open>
  \<open>event_thread\<close> hands back the title of its container whatever became of the save, so
  \<open>saved\<close> holds the title of every container of the laundry.
\<close>

lemma event_thread_returns_title:
  "event_thread e s evt c = (Returns t, s1) \<Longrightarrow> t = info evt"
  by (auto simp: event_thread_def split: prod.splits py_result.splits)

lemma pop_all_removes:
  "pop_all saved d = (Returns u, d1) \<Longrightarrow> t \<in> set saved \<Longrightarrow> d1 t = None"
proof (induction saved arbitrary: d)
  case Nil
  then show ?case by simp
next
  case (Cons a saved)
  from Cons.prems(1) obtain c where c: "d a = Some c" and r: "pop_all saved (d(a := None)) = (Returns u, d1)"
    by (auto split: option.splits)
  have keep: "\<And>d'. pop_all saved d' = (Returns u, d1) \<Longrightarrow> d' a = None \<Longrightarrow> d1 a = None"
  proof (induction saved)
    case Nil
    then show ?case by simp
  next
    case (Cons b saved)
    then show ?case by (auto split: option.splits)
  qed
  show ?case
  proof (cases "t \<in> set saved")
    case True
    from Cons.IH [OF r True] show ?thesis .
  next
    case False
    with Cons.prems(2) have "t = a" by simp
    with keep [OF r] show ?thesis by simp
  qed
qed

text \<open>
  C1 at its failing input: the destination refuses every save. The batch marks the
  container of the domain indicators dirty; the flush tries three times and logs the
  error; \<open>push_indicators\<close> goes on and returns; and the container is no longer in
  \<open>dirty_feeds\<close>.
\<close>

theorem failed_save_leaves_dirty_set:
  "dirty_feeds (snd (process_indicator_batch unreachable_env demo_importer evil_page))
     ''Indicator Type: Domain'' = Some 1 \<and>
   fst (push_indicators unreachable_env demo_importer demo_files evil_page) = Returns () \<and>
   net_calls (fst (snd (push_indicators unreachable_env demo_importer demo_files evil_page))) = 3 \<and>
   Log ERROR ''Unable to update %s with %s new indicators.''
     \<in> set (trace (fst (snd (push_indicators unreachable_env demo_importer demo_files evil_page)))) \<and>
   dirty_feeds (fst (snd (push_indicators unreachable_env demo_importer demo_files evil_page)))
     ''Indicator Type: Domain'' = None"
  by code_simp

section \<open>Theorems: the deduplication index\<close>

lemma merge_results_Raises:
  "Returns None \<in> set rs \<Longrightarrow> \<exists>x. merge_results rs acc = Raises x"
  by (induction rs acc rule: merge_results.induct) auto

lemma run_searches_failed:
  "(att, atn) \<in> set table \<Longrightarrow> misp_search_attributes e atn = ConnectionFailed \<Longrightarrow>
   Returns None \<in> set (fst (run_searches e s table))"
proof (induction table arbitrary: s)
  case Nil
  then show ?case by simp
next
  case (Cons a table)
  obtain att' atn' where a: "a = (att', atn')" by (cases a)
  show ?case
  proof (cases "a = (att, atn)")
    case True
    with Cons.prems(2) show ?thesis
      by (simp add: attribute_search_def split: prod.splits)
  next
    case False
    with Cons.prems have mem: "(att, atn) \<in> set table" by simp
    obtain r s1 where t: "attribute_search e s att' atn' = (r, s1)"
      by (cases "attribute_search e s att' atn'") auto
    obtain rs s2 where w: "run_searches e s1 table = (rs, s2)"
      by (cases "run_searches e s1 table") auto
    from Cons.IH [OF mem Cons.prems(2), of s1] w have "Returns None \<in> set rs"
      by simp
    with a t w show ?thesis by simp
  qed
qed

text \<open>A category whose search cannot connect makes the whole build raise.\<close>

lemma failed_search_fails_build:
  assumes "(att, atn) \<in> set (INDICATOR_TYPES e)" and "atn \<noteq> []"
    and "misp_search_attributes e atn = ConnectionFailed"
  shows "\<exists>x. fst (find_report_indicators e s) = Raises x"
proof -
  from assms(1,2) have "(att, atn) \<in> set (filter (\<lambda>(att, atn). atn \<noteq> []) (INDICATOR_TYPES e))"
    by simp
  from run_searches_failed [OF this assms(3), of s]
  have mem: "Returns None \<in> set (fst (run_searches e s
                (filter (\<lambda>(att, atn). atn \<noteq> []) (INDICATOR_TYPES e))))" .
  obtain rs s1 where w: "run_searches e s (filter (\<lambda>(att, atn). atn \<noteq> []) (INDICATOR_TYPES e)) = (rs, s1)"
    by (cases "run_searches e s (filter (\<lambda>(att, atn). atn \<noteq> []) (INDICATOR_TYPES e))") auto
  with mem have "Returns None \<in> set rs" by simp
  from merge_results_Raises [OF this, of Map.empty] obtain x where "merge_results rs Map.empty = Raises x"
    by blast
  with w show ?thesis
    by (simp add: find_report_indicators_def)
qed

text \<open>
  C3 at its failing input: the attribute search of the one category cannot connect.
  \<open>attribute_search\<close> logs its warning and returns \<open>None\<close>;
  \<open>find_report_indicators\<close> raises TypeError, and so does the run, before any page is
  fetched.
\<close>

theorem failed_search_is_hard_failure:
  "attribute_search search_down_env demo_importer ''domain'' ''domain'' =
     (Returns None,
      logs [Log WARNING ''Unable to retrieve %s attributes for duplicate checking.''] demo_importer) \<and>
   fst (find_report_indicators search_down_env demo_importer) = Raises TypeError \<and>
   fst (process_indicators search_down_env demo_importer demo_files 60) = Raises TypeError"
proof (intro conjI)
  show "attribute_search search_down_env demo_importer ''domain'' ''domain'' =
     (Returns None,
      logs [Log WARNING ''Unable to retrieve %s attributes for duplicate checking.''] demo_importer)"
    by (simp add: attribute_search_def search_down_env_def demo_env_def demo_search_down_def)
  show "fst (find_report_indicators search_down_env demo_importer) = Raises TypeError"
    by code_simp
  show "fst (process_indicators search_down_env demo_importer demo_files 60) = Raises TypeError"
    by code_simp
qed

section \<open>Theorems: a run without indicators\<close>

text \<open>
  A feed that yields no page at all: the run commits the timestamp taken before the fetch.
\<close>

lemma no_page_commits_time_send_request:
  assumes "get_indicators e (start_get_events e fs m) (delete_outdated (cfg e)) = []"
    and "fst (process_indicators e s fs m) = Returns ()"
  shows "ts_file (snd (snd (process_indicators e s fs m))) = Some (time_send_request e)"
  using assms
  by (auto simp: process_indicators_def note_timestamp_def Let_def
      split: prod.splits py_result.splits option.splits if_splits)

text \<open>A feed whose first page is empty: the run raises and writes nothing.\<close>

lemma push_indicators_Nil:
  "push_indicators e s fs [] =
     (Raises StopIteration,
      logs [Log INFO ''Pushed %s indicators into MISP in %.2f seconds.'']
        (logs [Log DEBUG ''Configuration states we should process batches of %s indicators.''] s),
      fs)"
  by (simp add: push_indicators_def push_all_batches_Nil page_checkpoint_def)

lemma empty_first_page_no_checkpoint:
  assumes "get_indicators e (start_get_events e fs m) (delete_outdated (cfg e)) = [] # rest"
  shows "(\<exists>x. fst (process_indicators e s fs m) = Raises x) \<and>
         snd (snd (process_indicators e s fs m)) = fs"
proof -
  let ?s0 = "(logs [Log INFO ''Retrieving lookup data for import of CrowdStrike indicators into MISP.''] s)
                 \<lparr>feeds := retrieve_family_events e (retrieve_or_create_feed_events e (feeds s))\<rparr>"
  obtain r s1 where f: "find_report_indicators e ?s0 = (r, s1)"
    by (cases "find_report_indicators e ?s0") auto
  show ?thesis
  proof (cases r)
    case (Raises x)
    with f show ?thesis
      by (simp add: process_indicators_def Let_def)
  next
    case (Returns u)
    with f assms show ?thesis
      by (simp add: process_indicators_def Let_def push_indicators_Nil)
  qed
qed

text \<open>
  C7 at its failing input: the feed yields one page, and the page is empty. The run raises
  StopIteration out of \<open>push_indicators\<close> and the timestamp file still holds the old
  checkpoint (900), not the time taken before the fetch (1700000005). With no page at all
  the same installation commits that time.
\<close>

theorem empty_page_run_writes_no_checkpoint:
  "fst (process_indicators (demo_env [[]]) demo_importer demo_files 60) = Raises StopIteration \<and>
   snd (snd (process_indicators (demo_env [[]]) demo_importer demo_files 60)) = demo_files \<and>
   ts_file demo_files = Some 900 \<and>
   fst (process_indicators (demo_env []) demo_importer demo_files 60) = Returns () \<and>
   ts_file (snd (snd (process_indicators (demo_env []) demo_importer demo_files 60))) =
     Some 1700000005"
  by code_simp

section \<open>Theorems: duplicates in a container\<close>

text \<open>
  C5 at its failing input: a batch that holds the same indicator twice, on the schedule
  where the two workers both compute their duplicate flags before either attaches. Both
  find the container without the value, both attach it and both report success: the
  container of the domain indicators holds the value twice. When the second worker starts
  after the first has finished, its flag is set, its result is 0 and the container holds
  the value once.
\<close>

theorem same_batch_duplicate_attached_twice:
  "fst (both_check_then_both_attach (demo_env []) demo_importer evil_indicator evil_indicator) =
     Some (Returns (1, 0), Returns (1, 0)) \<and>
   info (feeds (snd (both_check_then_both_attach (demo_env []) demo_importer
                       evil_indicator evil_indicator)) ! 0) = ''Indicator Type: Domain'' \<and>
   values_of (feeds (snd (both_check_then_both_attach (demo_env []) demo_importer
                            evil_indicator evil_indicator)) ! 0) =
     [''evil.example'', ''evil.example''] \<and>
   \<not> no_duplicate_values (feeds (snd (both_check_then_both_attach (demo_env []) demo_importer
                                       evil_indicator evil_indicator)) ! 0) \<and>
   fst (run_workers (demo_env []) demo_importer [evil_indicator, evil_indicator]) =
     [Returns (1, 0), Returns (0, 0)] \<and>
   values_of (feeds (snd (run_workers (demo_env []) demo_importer
                            [evil_indicator, evil_indicator])) ! 0) = [''evil.example'']"
  by code_simp

section \<open>Theorems: the installations above, run\<close>

text \<open>The general facts of the last sections at the small installation.\<close>

lemma failed_search_fails_build_example:
  "\<exists>x. fst (find_report_indicators search_down_env demo_importer) = Raises x"
  using failed_search_fails_build [of "''domain''" "''domain''" search_down_env demo_importer]
  by (simp add: search_down_env_def demo_env_def demo_search_down_def)

lemma no_page_commits_time_send_request_example:
  "ts_file (snd (snd (process_indicators (demo_env []) demo_importer demo_files 60))) =
     Some 1700000005"
proof -
  have g: "get_indicators (demo_env []) (start_get_events (demo_env []) demo_files 60)
             (delete_outdated (cfg (demo_env []))) = []"
    by (simp add: demo_env_def demo_feed_def)
  have r: "fst (process_indicators (demo_env []) demo_importer demo_files 60) = Returns ()"
    by code_simp
  from no_page_commits_time_send_request [OF g r] show ?thesis
    by (simp add: demo_env_def)
qed

lemma empty_first_page_no_checkpoint_example:
  "(\<exists>x. fst (process_indicators (demo_env [[]]) demo_importer demo_files 60) = Raises x) \<and>
   snd (snd (process_indicators (demo_env [[]]) demo_importer demo_files 60)) = demo_files"
proof -
  have g: "get_indicators (demo_env [[]]) (start_get_events (demo_env [[]]) demo_files 60)
             (delete_outdated (cfg (demo_env [[]]))) = [] # []"
    by (simp add: demo_env_def demo_feed_def)
  from empty_first_page_no_checkpoint [OF g] show ?thesis .
qed

end
